theory Spec2Isabelle
  imports Main
begin

section \<open>Python values\<close>

text \<open>
  The script \<^verbatim>\<open>scripts/fetch_nyu_schedge.py\<close> works on the values that
  \<^verbatim>\<open>r.json()\<close> returns: \<^verbatim>\<open>None\<close>, booleans, unbounded integers, floats,
  strings, lists and dictionaries with string keys. A Python string is a sequence of
  Unicode code points, so a string is a list of code points here; \<open>u\<close> turns an
  ASCII literal into one.
\<close>

type_synonym ustr = "nat list"

definition u :: "string \<Rightarrow> ustr" where
  "u s = map of_char s"

text \<open>
  A float is a sign, a significand and a binary exponent, an infinity or a NaN
  (Python's \<^verbatim>\<open>json\<close> module accepts \<^verbatim>\<open>Infinity\<close> and \<^verbatim>\<open>NaN\<close>).
\<close>

datatype pyfloat = Finite bool nat int | Infinity bool | NaN

text \<open>
  A dictionary is an association list in insertion order; a key is looked up at its
  first entry. The dictionaries that the JSON parser builds have no duplicate keys.
\<close>

datatype pyval =
    PNone
  | PBool bool
  | PInt int
  | PFloat pyfloat
  | PStr ustr
  | PList "pyval list"
  | PDict "(ustr \<times> pyval) list"

datatype py_error =
    AttributeError
  | TypeError
  | ValueError
  | RecursionError
  | UnicodeEncodeError
  | Timeout
  | ConnectionError
  | HTTPError nat
  | JSONDecodeError
  | OSError

subsection \<open>Truth value, \<^verbatim>\<open>or\<close>, \<^verbatim>\<open>dict.get\<close>, iteration\<close>

fun float_nonzero :: "pyfloat \<Rightarrow> bool" where
  "float_nonzero (Finite s m e) = (m \<noteq> 0)"
| "float_nonzero (Infinity s) = True"
| "float_nonzero NaN = True"

fun truthy :: "pyval \<Rightarrow> bool" where
  "truthy PNone = False"
| "truthy (PBool b) = b"
| "truthy (PInt i) = (i \<noteq> 0)"
| "truthy (PFloat f) = float_nonzero f"
| "truthy (PStr s) = (s \<noteq> [])"
| "truthy (PList xs) = (xs \<noteq> [])"
| "truthy (PDict kvs) = (kvs \<noteq> [])"

text \<open>
  \<^verbatim>\<open>a or b\<close> is \<^verbatim>\<open>a\<close> when \<^verbatim>\<open>a\<close> is truthy and \<^verbatim>\<open>b\<close> otherwise. This
  is the value of the expression where evaluating \<^verbatim>\<open>b\<close> cannot raise, as in every
  chain of \<^verbatim>\<open>.get\<close> calls on one dictionary; where \<^verbatim>\<open>b\<close> can raise (the
  instructor's name), the model branches on the truth value of \<^verbatim>\<open>a\<close> first.
\<close>

definition py_or :: "pyval \<Rightarrow> pyval \<Rightarrow> pyval" where
  "py_or a b = (if truthy a then a else b)"

text \<open>\<^verbatim>\<open>d.get(k, dflt)\<close> on a dictionary; \<^verbatim>\<open>d.get(k)\<close> has the default \<^verbatim>\<open>None\<close>.\<close>

definition dict_get :: "(ustr \<times> pyval) list \<Rightarrow> ustr \<Rightarrow> pyval \<Rightarrow> pyval" where
  "dict_get d k dflt = (case map_of d k of None \<Rightarrow> dflt | Some v \<Rightarrow> v)"

abbreviation get :: "(ustr \<times> pyval) list \<Rightarrow> string \<Rightarrow> pyval" where
  "get d k \<equiv> dict_get d (u k) PNone"

text \<open>
  \<^verbatim>\<open>for x in v\<close>: a list gives its elements, a dictionary its keys, a string its
  characters as one-character strings; anything else raises \<^verbatim>\<open>TypeError\<close>.
\<close>

fun py_iter :: "pyval \<Rightarrow> py_error + pyval list" where
  "py_iter (PList xs) = Inr xs"
| "py_iter (PDict kvs) = Inr (map (\<lambda>kv. PStr (fst kv)) kvs)"
| "py_iter (PStr s) = Inr (map (\<lambda>c. PStr [c]) s)"
| "py_iter v = Inl TypeError"

fun py_len :: "pyval \<Rightarrow> py_error + nat" where
  "py_len (PList xs) = Inr (length xs)"
| "py_len (PDict kvs) = Inr (length kvs)"
| "py_len (PStr s) = Inr (length s)"
| "py_len v = Inl TypeError"

subsection \<open>\<^verbatim>\<open>str()\<close>, string formatting and \<^verbatim>\<open>strip()\<close>\<close>

text \<open>
  What the text of a value depends on in the interpreter that runs the script: the
  limit \<^verbatim>\<open>sys.get_int_max_str_digits()\<close> on the decimal digits of an integer
  (4300 unless configured, 0 for no limit, which also describes an interpreter that has
  no such limit; the interpreter accepts no other value below 640), and
  \<^verbatim>\<open>repr\<close>, the text of a float, a list or a dictionary, which is not modelled
  and which raises for some values (\<^verbatim>\<open>RecursionError\<close> for a deeply nested
  list, \<^verbatim>\<open>ValueError\<close> for a list that holds an integer beyond the limit).
\<close>

record interpreter =
  int_max_str_digits :: nat
  repr :: "pyval \<Rightarrow> py_error + ustr"

fun digits :: "nat \<Rightarrow> ustr" where
  "digits n = (if n < 10 then [48 + n] else digits (n div 10) @ [48 + n mod 10])"

declare digits.simps [simp del]

text \<open>
  \<^verbatim>\<open>str(i)\<close> for an integer: the decimal digits after a minus sign for a negative
  number. CPython raises \<^verbatim>\<open>ValueError\<close> when the text is longer than 640
  characters and the number of digits exceeds a limit that is not 0.
\<close>

definition str_int :: "interpreter \<Rightarrow> int \<Rightarrow> py_error + ustr" where
  "str_int py i =
     (let ds = digits (nat \<bar>i\<bar>);
          chars = (if i < 0 then 45 # ds else ds)
      in if 640 < length chars \<and> 0 < int_max_str_digits py \<and> int_max_str_digits py < length ds
         then Inl ValueError
         else Inr chars)"

text \<open>
  \<^verbatim>\<open>str(v)\<close>, which is also what a replacement field \<^verbatim>\<open>{v}\<close> of an f-string
  gives.
\<close>

fun py_str :: "interpreter \<Rightarrow> pyval \<Rightarrow> py_error + ustr" where
  "py_str py PNone = Inr (u ''None'')"
| "py_str py (PBool b) = Inr (if b then u ''True'' else u ''False'')"
| "py_str py (PInt i) = str_int py i"
| "py_str py (PStr s) = Inr s"
| "py_str py v = repr py v"

text \<open>
  The f-string \<^verbatim>\<open>f"{a} {b}"\<close>: the text of \<^verbatim>\<open>a\<close>, a space, the text of
  \<^verbatim>\<open>b\<close>, the fields formatted from left to right.
\<close>

definition format_spaced :: "interpreter \<Rightarrow> pyval \<Rightarrow> pyval \<Rightarrow> py_error + ustr" where
  "format_spaced py a b =
     (case py_str py a of
        Inl e \<Rightarrow> Inl e
      | Inr sa \<Rightarrow>
          (case py_str py b of
             Inl e \<Rightarrow> Inl e
           | Inr sb \<Rightarrow> Inr (sa @ u '' '' @ sb)))"

text \<open>
  The characters that \<^verbatim>\<open>str.strip()\<close> removes: those for which
  \<^verbatim>\<open>str.isspace\<close> holds.
\<close>

definition py_isspace :: "nat \<Rightarrow> bool" where
  "py_isspace c \<longleftrightarrow>
     (9 \<le> c \<and> c \<le> 13) \<or> (28 \<le> c \<and> c \<le> 32) \<or> c = 133 \<or> c = 160 \<or> c = 5760
     \<or> (8192 \<le> c \<and> c \<le> 8202) \<or> c = 8232 \<or> c = 8233 \<or> c = 8239 \<or> c = 8287
     \<or> c = 12288"

definition py_strip :: "ustr \<Rightarrow> ustr" where
  "py_strip s = rev (dropWhile py_isspace (rev (dropWhile py_isspace s)))"

section \<open>The transformer\<close>

text \<open>
  \<^verbatim>\<open>transform_to_quacs_schema\<close>, one definition for each loop body and each loop.
  A \<^verbatim>\<open>.get\<close> on a value that is not a dictionary raises
  \<^verbatim>\<open>AttributeError\<close>; every \<^verbatim>\<open>.get\<close> of a loop body is on the loop variable, so
  among the \<^verbatim>\<open>.get\<close> calls of a body only the first can raise.
\<close>

definition meeting_body :: "pyval \<Rightarrow> py_error + pyval" where
  "meeting_body m =
     (case m of
        PDict d \<Rightarrow>
          (let days = py_or (py_or (get d ''days'') (get d ''pattern'')) (PStr [])
           in Inr (PDict
                [(u ''days'', days),
                 (u ''start'', get d ''startTime''),
                 (u ''end'', get d ''endTime''),
                 (u ''campus'', py_or (get d ''campus'') (get d ''campusName'')),
                 (u ''building'', py_or (get d ''building'') (get d ''buildingName'')),
                 (u ''room'', py_or (get d ''room'') (PStr [])),
                 (u ''modality'',
                    py_or (py_or (get d ''instructionMode'') (get d ''mode'')) (PStr []))]))
      | _ \<Rightarrow> Inl AttributeError)"

fun meetings_loop :: "pyval list \<Rightarrow> pyval list \<Rightarrow> py_error + pyval list" where
  "meetings_loop [] meetings_out = Inr meetings_out"
| "meetings_loop (m # ms) meetings_out =
     (case meeting_body m of
        Inl e \<Rightarrow> Inl e
      | Inr om \<Rightarrow> meetings_loop ms (meetings_out @ [om]))"

text \<open>
  Line 84, the instructor's name: the \<^verbatim>\<open>name\<close> field when it is truthy; the
  f-string of the first and the last name, stripped, is evaluated only when it is not.
\<close>

definition instructor_name :: "interpreter \<Rightarrow> pyval \<Rightarrow> py_error + pyval" where
  "instructor_name py i =
     (case i of
        PDict d \<Rightarrow>
          if truthy (get d ''name'') then Inr (get d ''name'')
          else (case format_spaced py (dict_get d (u ''firstName'') (PStr []))
                       (dict_get d (u ''lastName'') (PStr [])) of
                  Inl e \<Rightarrow> Inl e
                | Inr joined \<Rightarrow> Inr (PStr (py_strip joined)))
      | _ \<Rightarrow> Inl AttributeError)"

text \<open>
  The body of the instructor loop: \<open>instrs\<close> after the iteration, with the name
  appended when it is truthy.
\<close>

definition instructor_body ::
  "interpreter \<Rightarrow> pyval \<Rightarrow> pyval list \<Rightarrow> py_error + pyval list" where
  "instructor_body py i instrs =
     (case instructor_name py i of
        Inl e \<Rightarrow> Inl e
      | Inr name \<Rightarrow> Inr (if truthy name then instrs @ [name] else instrs))"

fun instructors_loop ::
  "interpreter \<Rightarrow> pyval list \<Rightarrow> pyval list \<Rightarrow> py_error + pyval list" where
  "instructors_loop py [] instrs = Inr instrs"
| "instructors_loop py (i # is) instrs =
     (case instructor_body py i instrs of
        Inl e \<Rightarrow> Inl e
      | Inr instrs' \<Rightarrow> instructors_loop py is instrs')"

definition section_body :: "interpreter \<Rightarrow> pyval \<Rightarrow> py_error + pyval" where
  "section_body py s =
     (case s of
        PDict d \<Rightarrow>
          (let sec_code =
                 py_or (py_or (py_or (get d ''sectionCode'') (get d ''code''))
                          (get d ''registrationNumber'')) (PStr [])
           in case py_iter (dict_get d (u ''instructors'') (PList [])) of
                Inl e \<Rightarrow> Inl e
              | Inr is \<Rightarrow>
                  (case instructors_loop py is [] of
                     Inl e \<Rightarrow> Inl e
                   | Inr instrs \<Rightarrow>
                       (case py_iter (dict_get d (u ''meetings'') (PList [])) of
                          Inl e \<Rightarrow> Inl e
                        | Inr ms \<Rightarrow>
                            (case meetings_loop ms [] of
                               Inl e \<Rightarrow> Inl e
                             | Inr meetings_out \<Rightarrow>
                                 Inr (PDict
                                   [(u ''section'', sec_code),
                                    (u ''instructors'', PList instrs),
                                    (u ''meetings'', PList meetings_out)])))))
      | _ \<Rightarrow> Inl AttributeError)"

fun sections_loop ::
  "interpreter \<Rightarrow> pyval list \<Rightarrow> pyval list \<Rightarrow> py_error + pyval list" where
  "sections_loop py [] sections_out = Inr sections_out"
| "sections_loop py (s # ss) sections_out =
     (case section_body py s of
        Inl e \<Rightarrow> Inl e
      | Inr os \<Rightarrow> sections_loop py ss (sections_out @ [os]))"

text \<open>
  The body of the course loop. The dictionary of lines 107 to 114 is built after the
  loop over the sections, its values in the order they are written: the f-string of
  the id, then \<^verbatim>\<open>str(number)\<close>.
\<close>

definition course_body :: "interpreter \<Rightarrow> pyval \<Rightarrow> py_error + pyval" where
  "course_body py c =
     (case c of
        PDict d \<Rightarrow>
          (let subject = py_or (py_or (get d ''subjectCode'') (get d ''subject'')) (PStr []);
               number = py_or (py_or (py_or (get d ''courseNumber'') (get d ''code''))
                                 (get d ''catalogNumber'')) (PStr []);
               title = py_or (py_or (get d ''name'') (get d ''title'')) (PStr []);
               credits = py_or (py_or (get d ''credits'') (get d ''minCredits'')) (PInt 0)
           in case py_iter (dict_get d (u ''sections'') (PList [])) of
                Inl e \<Rightarrow> Inl e
              | Inr ss \<Rightarrow>
                  (case sections_loop py ss [] of
                     Inl e \<Rightarrow> Inl e
                   | Inr sections_out \<Rightarrow>
                       (case format_spaced py subject number of
                          Inl e \<Rightarrow> Inl e
                        | Inr ident \<Rightarrow>
                            (case py_str py number of
                               Inl e \<Rightarrow> Inl e
                             | Inr num \<Rightarrow>
                                 Inr (PDict
                                   [(u ''id'', PStr (py_strip ident)),
                                    (u ''subject'', subject),
                                    (u ''number'', PStr num),
                                    (u ''title'', title),
                                    (u ''credits'', credits),
                                    (u ''sections'', PList sections_out)])))))
      | _ \<Rightarrow> Inl AttributeError)"

fun courses_loop ::
  "interpreter \<Rightarrow> pyval list \<Rightarrow> pyval list \<Rightarrow> py_error + pyval list" where
  "courses_loop py [] out_courses = Inr out_courses"
| "courses_loop py (c # cs) out_courses =
     (case course_body py c of
        Inl e \<Rightarrow> Inl e
      | Inr oc \<Rightarrow> courses_loop py cs (out_courses @ [oc]))"

definition transform_to_quacs_schema :: "interpreter \<Rightarrow> pyval \<Rightarrow> py_error + pyval" where
  "transform_to_quacs_schema py raw_courses =
     (case py_iter raw_courses of
        Inl e \<Rightarrow> Inl e
      | Inr cs \<Rightarrow>
          (case courses_loop py cs [] of
             Inl e \<Rightarrow> Inl e
           | Inr out_courses \<Rightarrow> Inr (PDict [(u ''courses'', PList out_courses)])))"

section \<open>The fetcher, the writer and the entry point\<close>

text \<open>
  What \<^verbatim>\<open>requests.get(url, params=params, timeout=30)\<close> meets: no answer within
  the timeout, a failed connection, or a reply with a status code and a body, the body
  parsed as JSON where it is JSON.
\<close>

datatype response = NoAnswer | NoConnection | Reply nat "pyval option"

type_synonym network = "ustr \<Rightarrow> (ustr \<times> pyval) list option \<Rightarrow> response"

text \<open>
  \<^verbatim>\<open>get_json\<close>: \<^verbatim>\<open>raise_for_status\<close> raises for the status codes 400 to 599,
  \<^verbatim>\<open>r.json()\<close> for a body that is not JSON.
\<close>

definition get_json :: "network \<Rightarrow> ustr \<Rightarrow> (ustr \<times> pyval) list option \<Rightarrow> py_error + pyval" where
  "get_json net url params =
     (case net url params of
        NoAnswer \<Rightarrow> Inl Timeout
      | NoConnection \<Rightarrow> Inl ConnectionError
      | Reply status body \<Rightarrow>
          if 400 \<le> status \<and> status < 600 then Inl (HTTPError status)
          else (case body of None \<Rightarrow> Inl JSONDecodeError | Some v \<Rightarrow> Inr v))"

definition BASE :: ustr where
  "BASE = u ''https://nyu.a1liu.com/api''"

definition TERMS_ENDPOINT :: ustr where
  "TERMS_ENDPOINT = BASE @ u ''/v3/terms''"

definition MVP_SCHOOL :: ustr where
  "MVP_SCHOOL = u ''EG''"

definition MVP_SUBJECT :: ustr where
  "MVP_SUBJECT = u ''CS''"

definition YEAR :: int where
  "YEAR = 2025"

definition TERM' :: ustr where
  "TERM' = u ''fa''"

definition guess_schedge_endpoints :: "(ustr \<times> ustr) list" where
  "guess_schedge_endpoints =
     [(u ''subjects'', BASE @ u ''/v3/subjects''), (u ''courses'', BASE @ u ''/v3/courses'')]"

definition fetch_courses :: "network \<Rightarrow> int \<Rightarrow> ustr \<Rightarrow> ustr \<Rightarrow> ustr \<Rightarrow> py_error + pyval" where
  "fetch_courses net year term school subject =
     (let eps = guess_schedge_endpoints;
          params = [(u ''year'', PInt year), (u ''term'', PStr term),
                    (u ''school'', PStr school), (u ''subject'', PStr subject)]
      in get_json net (the (map_of eps (u ''courses''))) (Some params))"

text \<open>
  The run's surroundings: the network; whether a directory can be made and the file
  opened; after how many characters the write fails and with which exception
  (\<open>None\<close>: it does not fail); the interpreter; the text of
  \<^verbatim>\<open>json.dump(out, f, ensure_ascii=False, indent=2)\<close>, which is not modelled; and
  which texts standard output can encode (with UTF-8, those without a surrogate code
  point). The fixed messages of the script and the text of an exception are taken to
  be printable.
\<close>

record world =
  net :: network
  mkdir_fails :: bool
  open_fails :: bool
  write_fails_after :: "(nat \<times> py_error) option"
  interp :: interpreter
  dumps :: "pyval \<Rightarrow> ustr"
  encodable :: "ustr \<Rightarrow> bool"

text \<open>
  What the operator reads on standard output, one entry for each \<^verbatim>\<open>print\<close>.
  \<open>TermsExampleBegun\<close> is the beginning of the terms line, which \<^verbatim>\<open>print\<close> has
  written when the text of the terms cannot be encoded.
\<close>

datatype message =
    FetchingTerms
  | TermsExample ustr
  | TermsExampleBegun
  | TermsWarning py_error
  | FetchingCourses
  | Transforming nat
  | Wrote

text \<open>
  The state a run changes: whether the directory \<^verbatim>\<open>semester_data/2025/fa\<close>
  exists, the text of \<^verbatim>\<open>courses.json\<close> in it (\<open>None\<close>: no such file), and standard
  output.
\<close>

record state =
  out_dir :: bool
  out_file :: "ustr option"
  stdout :: "message list"

definition print :: "message \<Rightarrow> state \<Rightarrow> state" where
  "print msg s = s\<lparr>stdout := stdout s @ [msg]\<rparr>"

text \<open>\<^verbatim>\<open>mkdir(parents=True, exist_ok=True)\<close> on the output directory.\<close>

definition mkdir :: "world \<Rightarrow> state \<Rightarrow> py_error + state" where
  "mkdir w s =
     (if out_dir s then Inr s
      else if mkdir_fails w then Inl OSError
      else Inr (s\<lparr>out_dir := True\<rparr>))"

text \<open>
  \<^verbatim>\<open>with open(OUT_FILE, "w") as f: json.dump(...)\<close>: opening truncates the file; a
  write that fails leaves the characters written so far.
\<close>

definition write_out :: "world \<Rightarrow> pyval \<Rightarrow> state \<Rightarrow> py_error option \<times> state" where
  "write_out w out s =
     (if open_fails w then (Some OSError, s)
      else (case write_fails_after w of
              Some (n, e) \<Rightarrow> (Some e, s\<lparr>out_file := Some (take n (dumps w out))\<rparr>)
            | None \<Rightarrow> (None, s\<lparr>out_file := Some (dumps w out)\<rparr>)))"

text \<open>
  The \<^verbatim>\<open>try\<close> block of lines 120 to 124. Everything in it that raises ends
  in the warning: the fetch of the terms, \<^verbatim>\<open>str(terms)\<close>, and the
  \<^verbatim>\<open>print\<close> of a text that standard output cannot encode, which comes after
  \<^verbatim>\<open>print\<close> has written the words before that text.
\<close>

definition try_terms :: "world \<Rightarrow> state \<Rightarrow> state" where
  "try_terms w s =
     (case get_json (net w) TERMS_ENDPOINT None of
        Inl e \<Rightarrow> print (TermsWarning e) s
      | Inr terms \<Rightarrow>
          (case py_str (interp w) terms of
             Inl e \<Rightarrow> print (TermsWarning e) s
           | Inr shown \<Rightarrow>
               if encodable w (take 200 shown)
               then print (TermsExample (take 200 shown)) s
               else print (TermsWarning UnicodeEncodeError) (print TermsExampleBegun s)))"

text \<open>
  \<^verbatim>\<open>main\<close>: the exception that ends it (\<open>None\<close>: it returns) and the state it
  leaves.
\<close>

definition main :: "world \<Rightarrow> state \<Rightarrow> py_error option \<times> state" where
  "main w s0 =
     (let s1 = print FetchingTerms s0;
          s2 = try_terms w s1;
          s3 = print FetchingCourses s2
      in case fetch_courses (net w) YEAR TERM' MVP_SCHOOL MVP_SUBJECT of
           Inl e \<Rightarrow> (Some e, s3)
         | Inr raw_courses \<Rightarrow>
             (case py_len raw_courses of
                Inl e \<Rightarrow> (Some e, s3)
              | Inr n \<Rightarrow>
                  (let s4 = print (Transforming n) s3
                   in case transform_to_quacs_schema (interp w) raw_courses of
                        Inl e \<Rightarrow> (Some e, s4)
                      | Inr out \<Rightarrow>
                          (case mkdir w s4 of
                             Inl e \<Rightarrow> (Some e, s4)
                           | Inr s5 \<Rightarrow>
                               (case write_out w out s5 of
                                  (Some e, s6) \<Rightarrow> (Some e, s6)
                                | (None, s6) \<Rightarrow> (None, print Wrote s6))))))"

text \<open>
  A run of the script: the module's own statements (the \<^verbatim>\<open>mkdir\<close> of line 28)
  and then \<^verbatim>\<open>main()\<close>.
\<close>

definition script :: "world \<Rightarrow> state \<Rightarrow> py_error option \<times> state" where
  "script w s = (case mkdir w s of Inl e \<Rightarrow> (Some e, s) | Inr s' \<Rightarrow> main w s')"

section \<open>The output schema and the shapes of the input\<close>

text \<open>The keys of a dictionary, in order, and the value under a key of an output.\<close>

definition has_keys :: "string list \<Rightarrow> pyval \<Rightarrow> bool" where
  "has_keys ks v = (case v of PDict d \<Rightarrow> map fst d = map u ks | _ \<Rightarrow> False)"

definition field :: "string \<Rightarrow> pyval \<Rightarrow> pyval" where
  "field k v = (case v of PDict d \<Rightarrow> get d k | _ \<Rightarrow> PNone)"

definition list_of :: "(pyval \<Rightarrow> bool) \<Rightarrow> pyval \<Rightarrow> bool" where
  "list_of P v = (case v of PList xs \<Rightarrow> list_all P xs | _ \<Rightarrow> False)"

fun is_dict :: "pyval \<Rightarrow> bool" where
  "is_dict (PDict d) = True"
| "is_dict v = False"

fun is_list :: "pyval \<Rightarrow> bool" where
  "is_list (PList xs) = True"
| "is_list v = False"

fun is_str :: "pyval \<Rightarrow> bool" where
  "is_str (PStr s) = True"
| "is_str v = False"

fun is_number :: "pyval \<Rightarrow> bool" where
  "is_number (PInt i) = True"
| "is_number (PFloat f) = True"
| "is_number v = False"

text \<open>
  The fixed output schema: a document \<^verbatim>\<open>{"courses": [...]}\<close>, each course with
  its six keys, each section with its three, each meeting with its seven.
\<close>

definition meeting_ok :: "pyval \<Rightarrow> bool" where
  "meeting_ok v =
     has_keys [''days'', ''start'', ''end'', ''campus'', ''building'', ''room'', ''modality''] v"

definition section_ok :: "pyval \<Rightarrow> bool" where
  "section_ok v \<longleftrightarrow>
     has_keys [''section'', ''instructors'', ''meetings''] v
     \<and> is_list (field ''instructors'' v)
     \<and> list_of meeting_ok (field ''meetings'' v)"

definition course_ok :: "pyval \<Rightarrow> bool" where
  "course_ok v \<longleftrightarrow>
     has_keys [''id'', ''subject'', ''number'', ''title'', ''credits'', ''sections''] v
     \<and> is_str (field ''id'' v) \<and> is_str (field ''number'' v)
     \<and> list_of section_ok (field ''sections'' v)"

definition document_ok :: "pyval \<Rightarrow> bool" where
  "document_ok v \<longleftrightarrow> has_keys [''courses''] v \<and> list_of course_ok (field ''courses'' v)"

text \<open>
  The records under a key: \<open>items k v\<close> is the list under the key \<open>k\<close> of an output
  \<open>v\<close>, and \<open>visited k v\<close> is what the loop \<^verbatim>\<open>for x in v.get(k, [])\<close> visits in a
  raw record \<open>v\<close>.
\<close>

definition items :: "string \<Rightarrow> pyval \<Rightarrow> pyval list" where
  "items k v = (case field k v of PList xs \<Rightarrow> xs | _ \<Rightarrow> [])"

definition visited :: "string \<Rightarrow> pyval \<Rightarrow> pyval list" where
  "visited k v =
     (case v of
        PDict d \<Rightarrow>
          (case py_iter (dict_get d (u k) (PList [])) of Inr xs \<Rightarrow> xs | Inl e \<Rightarrow> [])
      | _ \<Rightarrow> [])"

text \<open>A dictionary that has none of the keys \<open>ks\<close>.\<close>

definition lacks :: "(ustr \<times> pyval) list \<Rightarrow> string list \<Rightarrow> bool" where
  "lacks d ks = list_all (\<lambda>k. map_of d (u k) = None) ks"

text \<open>
  A fallback chain \<^verbatim>\<open>a or b or ... or dflt\<close> read as a whole: the first truthy
  candidate, and the default when there is none.
\<close>

fun first_truthy :: "pyval list \<Rightarrow> pyval \<Rightarrow> pyval" where
  "first_truthy [] dflt = dflt"
| "first_truthy (v # vs) dflt = (if truthy v then v else first_truthy vs dflt)"

text \<open>
  The expected shape of the input. A value has a text when \<^verbatim>\<open>str()\<close> returns
  one. A nested collection is a list; an empty string and an empty dictionary pass for
  the empty list. An instructor is a dictionary with a truthy name or with a first and
  a last name that have a text; a meeting is a dictionary; a section is a dictionary
  whose \<^verbatim>\<open>instructors\<close> and \<^verbatim>\<open>meetings\<close>, where present, are collections of
  instructors and of meetings; a course is a dictionary whose \<^verbatim>\<open>sections\<close>,
  where present, is a collection of sections and whose subject and number have a text.
\<close>

definition formats :: "interpreter \<Rightarrow> pyval \<Rightarrow> bool" where
  "formats py v = (case py_str py v of Inl e \<Rightarrow> False | Inr s \<Rightarrow> True)"

definition elements :: "pyval \<Rightarrow> pyval list option" where
  "elements v =
     (case v of
        PList xs \<Rightarrow> Some xs
      | PStr s \<Rightarrow> if s = [] then Some [] else None
      | PDict kvs \<Rightarrow> if kvs = [] then Some [] else None
      | _ \<Rightarrow> None)"

definition collection_of :: "(pyval \<Rightarrow> bool) \<Rightarrow> pyval \<Rightarrow> bool" where
  "collection_of P v = (case elements v of Some xs \<Rightarrow> list_all P xs | None \<Rightarrow> False)"

definition instructor_shape :: "interpreter \<Rightarrow> pyval \<Rightarrow> bool" where
  "instructor_shape py i =
     (case i of
        PDict d \<Rightarrow>
          truthy (get d ''name'')
          \<or> (formats py (dict_get d (u ''firstName'') (PStr []))
              \<and> formats py (dict_get d (u ''lastName'') (PStr [])))
      | _ \<Rightarrow> False)"

definition section_shape :: "interpreter \<Rightarrow> pyval \<Rightarrow> bool" where
  "section_shape py s =
     (case s of
        PDict d \<Rightarrow>
          collection_of (instructor_shape py) (dict_get d (u ''instructors'') (PList []))
          \<and> collection_of is_dict (dict_get d (u ''meetings'') (PList []))
      | _ \<Rightarrow> False)"

definition course_shape :: "interpreter \<Rightarrow> pyval \<Rightarrow> bool" where
  "course_shape py c =
     (case c of
        PDict d \<Rightarrow>
          collection_of (section_shape py) (dict_get d (u ''sections'') (PList []))
          \<and> formats py (first_truthy [get d ''subjectCode'', get d ''subject''] (PStr []))
          \<and> formats py
               (first_truthy [get d ''courseNumber'', get d ''code'', get d ''catalogNumber'']
                  (PStr []))
      | _ \<Rightarrow> False)"

text \<open>A key that is absent, or present with an empty list, string or dictionary.\<close>

definition absent_or_empty :: "(ustr \<times> pyval) list \<Rightarrow> string \<Rightarrow> bool" where
  "absent_or_empty d k =
     (case map_of d (u k) of
        None \<Rightarrow> True
      | Some v \<Rightarrow> v = PList [] \<or> v = PStr [] \<or> v = PDict [])"

text \<open>
  The defaults of the specification: for each field of an output record, the upstream
  keys it is looked up under and the value it has when none of them is there.
\<close>

definition meeting_defaults :: "(string \<times> string list \<times> pyval) list" where
  "meeting_defaults =
     [(''days'', [''days'', ''pattern''], PStr []),
      (''start'', [''startTime''], PNone),
      (''end'', [''endTime''], PNone),
      (''campus'', [''campus'', ''campusName''], PNone),
      (''building'', [''building'', ''buildingName''], PNone),
      (''room'', [''room''], PStr []),
      (''modality'', [''instructionMode'', ''mode''], PStr [])]"

definition section_defaults :: "(string \<times> string list \<times> pyval) list" where
  "section_defaults =
     [(''section'', [''sectionCode'', ''code'', ''registrationNumber''], PStr []),
      (''instructors'', [''instructors''], PList []),
      (''meetings'', [''meetings''], PList [])]"

definition course_field_defaults :: "(string \<times> string list \<times> pyval) list" where
  "course_field_defaults =
     [(''id'', [''subjectCode'', ''subject'', ''courseNumber'', ''code'', ''catalogNumber''],
         PStr []),
      (''subject'', [''subjectCode'', ''subject''], PStr []),
      (''number'', [''courseNumber'', ''code'', ''catalogNumber''], PStr []),
      (''title'', [''name'', ''title''], PStr []),
      (''credits'', [''credits'', ''minCredits''], PInt 0),
      (''sections'', [''sections''], PList [])]"

text \<open>The output course of a raw course that has none of the optional fields.\<close>

definition default_course :: pyval where
  "default_course =
     PDict [(u ''id'', PStr []), (u ''subject'', PStr []), (u ''number'', PStr []),
            (u ''title'', PStr []), (u ''credits'', PInt 0), (u ''sections'', PList [])]"

text \<open>A raw course that is a mapping with none of the optional fields.\<close>

definition bare :: "pyval \<Rightarrow> bool" where
  "bare c =
     (case c of
        PDict d \<Rightarrow>
          lacks d [''subjectCode'', ''subject'', ''courseNumber'', ''code'', ''catalogNumber'',
                   ''name'', ''title'', ''credits'', ''minCredits'', ''sections'']
      | _ \<Rightarrow> False)"

text \<open>A key that is present with a falsy value, and the dictionary without a key.\<close>

definition present_falsy :: "(ustr \<times> pyval) list \<Rightarrow> string \<Rightarrow> bool" where
  "present_falsy d k = (case map_of d (u k) of None \<Rightarrow> False | Some v \<Rightarrow> \<not> truthy v)"

definition dict_del :: "string \<Rightarrow> (ustr \<times> pyval) list \<Rightarrow> (ustr \<times> pyval) list" where
  "dict_del k d = filter (\<lambda>kv. fst kv \<noteq> u k) d"

definition number_or_absent :: "(ustr \<times> pyval) list \<Rightarrow> string \<Rightarrow> bool" where
  "number_or_absent d k = (case map_of d (u k) of None \<Rightarrow> True | Some v \<Rightarrow> is_number v)"

text \<open>
  The instructor rule in the specification's words: the \<^verbatim>\<open>name\<close> field where it
  exists, otherwise the first and the last name joined by a space and trimmed; no entry
  for an empty name.
\<close>

definition specified_instructor ::
  "interpreter \<Rightarrow> (ustr \<times> pyval) list \<Rightarrow> py_error + pyval list" where
  "specified_instructor py d =
     (case (case map_of d (u ''name'') of
              Some v \<Rightarrow> Inr v
            | None \<Rightarrow>
                (case format_spaced py (dict_get d (u ''firstName'') (PStr []))
                        (dict_get d (u ''lastName'') (PStr [])) of
                   Inl e \<Rightarrow> Inl e
                 | Inr joined \<Rightarrow> Inr (PStr (py_strip joined)))) of
        Inl e \<Rightarrow> Inl e
      | Inr name \<Rightarrow> Inr (if name = PStr [] then [] else [name]))"

text \<open>When \<^verbatim>\<open>get_json\<close> has nothing to return.\<close>

fun failed :: "response \<Rightarrow> bool" where
  "failed NoAnswer = True"
| "failed NoConnection = True"
| "failed (Reply status body) = ((400 \<le> status \<and> status < 600) \<or> body = None)"

section \<open>Example inputs\<close>

text \<open>The course of the specification's end-to-end scenario and the document for it.\<close>

definition example_courses :: pyval where
  "example_courses =
     PList [PDict
       [(u ''subjectCode'', PStr (u ''CS'')),
        (u ''courseNumber'', PStr (u ''101'')),
        (u ''name'', PStr (u ''Intro'')),
        (u ''credits'', PInt 4),
        (u ''sections'', PList [PDict
           [(u ''sectionCode'', PStr (u ''A'')),
            (u ''instructors'', PList [PDict [(u ''name'', PStr (u ''J. Doe''))]]),
            (u ''meetings'', PList [PDict
               [(u ''days'', PStr (u ''MWF'')),
                (u ''startTime'', PStr (u ''09:00'')),
                (u ''endTime'', PStr (u ''10:15'')),
                (u ''campus'', PStr (u ''Main'')),
                (u ''room'', PStr (u ''101''))]])]])]]"

definition example_document :: pyval where
  "example_document =
     PDict [(u ''courses'', PList [PDict
       [(u ''id'', PStr (u ''CS 101'')),
        (u ''subject'', PStr (u ''CS'')),
        (u ''number'', PStr (u ''101'')),
        (u ''title'', PStr (u ''Intro'')),
        (u ''credits'', PInt 4),
        (u ''sections'', PList [PDict
           [(u ''section'', PStr (u ''A'')),
            (u ''instructors'', PList [PStr (u ''J. Doe'')]),
            (u ''meetings'', PList [PDict
               [(u ''days'', PStr (u ''MWF'')),
                (u ''start'', PStr (u ''09:00'')),
                (u ''end'', PStr (u ''10:15'')),
                (u ''campus'', PStr (u ''Main'')),
                (u ''building'', PNone),
                (u ''room'', PStr (u ''101'')),
                (u ''modality'', PStr [])]])]])]])]"

text \<open>
  A list of two sparse courses, the first with two sections and the first of these with
  two meetings, and the document for it.
\<close>

definition sparse_courses :: "pyval list" where
  "sparse_courses =
     [PDict
        [(u ''title'', PStr (u ''Algorithms'')),
         (u ''sections'', PList
            [PDict
               [(u ''code'', PStr (u ''B'')),
                (u ''meetings'', PList [PDict [(u ''room'', PStr (u ''101''))], PDict []])],
             PDict []])],
      PDict []]"

definition sparse_document :: pyval where
  "sparse_document =
     PDict [(u ''courses'', PList
       [PDict
          [(u ''id'', PStr []),
           (u ''subject'', PStr []),
           (u ''number'', PStr []),
           (u ''title'', PStr (u ''Algorithms'')),
           (u ''credits'', PInt 0),
           (u ''sections'', PList
              [PDict
                 [(u ''section'', PStr (u ''B'')),
                  (u ''instructors'', PList []),
                  (u ''meetings'', PList
                     [PDict
                        [(u ''days'', PStr []), (u ''start'', PNone), (u ''end'', PNone),
                         (u ''campus'', PNone), (u ''building'', PNone),
                         (u ''room'', PStr (u ''101'')), (u ''modality'', PStr [])],
                      PDict
                        [(u ''days'', PStr []), (u ''start'', PNone), (u ''end'', PNone),
                         (u ''campus'', PNone), (u ''building'', PNone),
                         (u ''room'', PStr []), (u ''modality'', PStr [])]])],
               PDict
                 [(u ''section'', PStr []),
                  (u ''instructors'', PList []),
                  (u ''meetings'', PList [])]])],
        PDict
          [(u ''id'', PStr []),
           (u ''subject'', PStr []),
           (u ''number'', PStr []),
           (u ''title'', PStr []),
           (u ''credits'', PInt 0),
           (u ''sections'', PList [])]])]"

text \<open>
  Four instructors: one with a name, one with empty first and last names, one with an
  empty name and a first and a last name, one with a last name only.
\<close>

definition example_instructors :: "pyval list" where
  "example_instructors =
     [PDict [(u ''name'', PStr (u ''A. Smith''))],
      PDict [(u ''firstName'', PStr []), (u ''lastName'', PStr [])],
      PDict [(u ''name'', PStr []), (u ''firstName'', PStr (u ''B.'')),
             (u ''lastName'', PStr (u ''Jones''))],
      PDict [(u ''lastName'', PStr (u ''Doe''))]]"

text \<open>A course with one section that has these four instructors, and the document for it.\<close>

definition staffed_courses :: "pyval list" where
  "staffed_courses =
     [PDict [(u ''sections'', PList [PDict [(u ''instructors'', PList example_instructors)]])]]"

definition staffed_document :: pyval where
  "staffed_document =
     PDict [(u ''courses'', PList
       [PDict
          [(u ''id'', PStr []),
           (u ''subject'', PStr []),
           (u ''number'', PStr []),
           (u ''title'', PStr []),
           (u ''credits'', PInt 0),
           (u ''sections'', PList
              [PDict
                 [(u ''section'', PStr []),
                  (u ''instructors'', PList
                     [PStr (u ''A. Smith''), PStr (u ''B. Jones''), PStr (u ''Doe'')]),
                  (u ''meetings'', PList [])]])]])]"

text \<open>
  Three courses for the id and the credits: a subject with a numeric course number and
  credits looked up under the second key, a course whose credits are a string, and a
  course with an empty subject and an empty number.
\<close>

definition three_courses :: "pyval list" where
  "three_courses =
     [PDict [(u ''subjectCode'', PStr (u ''CS'')), (u ''courseNumber'', PInt 101),
             (u ''credits'', PInt 0), (u ''minCredits'', PInt 3)],
      PDict [(u ''subject'', PStr (u '' MATH'')), (u ''catalogNumber'', PInt 2014),
             (u ''credits'', PStr (u ''4''))],
      PDict [(u ''subjectCode'', PStr []), (u ''courseNumber'', PStr [])]]"

definition three_courses_document :: pyval where
  "three_courses_document =
     PDict [(u ''courses'', PList
       [PDict [(u ''id'', PStr (u ''CS 101'')), (u ''subject'', PStr (u ''CS'')),
               (u ''number'', PStr (u ''101'')), (u ''title'', PStr []),
               (u ''credits'', PInt 3), (u ''sections'', PList [])],
        PDict [(u ''id'', PStr (u ''MATH 2014'')), (u ''subject'', PStr (u '' MATH'')),
               (u ''number'', PStr (u ''2014'')), (u ''title'', PStr []),
               (u ''credits'', PStr (u ''4'')), (u ''sections'', PList [])],
        PDict [(u ''id'', PStr []), (u ''subject'', PStr []),
               (u ''number'', PStr []), (u ''title'', PStr []),
               (u ''credits'', PInt 0), (u ''sections'', PList [])]])]"

text \<open>
  An interpreter for the examples: the default limit of 4300 digits, and a stand-in for
  Python's \<^verbatim>\<open>repr\<close>.
\<close>

definition example_interpreter :: interpreter where
  "example_interpreter = \<lparr>int_max_str_digits = 4300, repr = (\<lambda>v. Inr (u ''...''))\<rparr>"

text \<open>What UTF-8 encodes: the texts without a surrogate code point.\<close>

definition utf8_encodable :: "ustr \<Rightarrow> bool" where
  "utf8_encodable s = list_all (\<lambda>c. \<not> (55296 \<le> c \<and> c \<le> 57343)) s"

text \<open>
  A world for the examples: the terms endpoint answers \<open>terms\<close>, every other request
  \<open>courses\<close>, the file system does not fail and standard output is UTF-8.
\<close>

definition example_world :: "response \<Rightarrow> response \<Rightarrow> world" where
  "example_world terms courses =
     \<lparr>net = (\<lambda>url params. if url = TERMS_ENDPOINT then terms else courses),
      mkdir_fails = False, open_fails = False, write_fails_after = None,
      interp = example_interpreter, dumps = (\<lambda>v. u ''{...}''),
      encodable = utf8_encodable\<rparr>"

definition example_state :: state where
  "example_state = \<lparr>out_dir = True, out_file = Some (u ''old''), stdout = []\<rparr>"

section \<open>Evaluation\<close>

lemmas body_defs =
  meeting_body_def instructor_name_def instructor_body_def section_body_def course_body_def
  transform_to_quacs_schema_def format_spaced_def

lemmas eval_defs =
  Let_def dict_get_def py_or_def py_strip_def py_isspace_def u_def str_int_def digits.simps

section \<open>Helper lemmas\<close>

subsection \<open>Literals\<close>

lemma inj_of_char_nat: "inj (of_char :: char \<Rightarrow> nat)"
  by (rule injI) simp

lemma u_eq_iff: "u a = u b \<longleftrightarrow> a = b"
  unfolding u_def by (rule inj_map_eq_map [OF inj_of_char_nat])

lemma dict_get_Cons:
  "dict_get ((k, v) # d) k' dflt = (if k' = k then v else dict_get d k' dflt)"
  by (simp add: dict_get_def)

lemma dict_get_absent: "map_of d k = None \<Longrightarrow> dict_get d k dflt = dflt"
  by (simp add: dict_get_def)

lemma strip_space: "py_strip (u '' '') = []"
  by (simp add: py_strip_def py_isspace_def u_def)

lemma strip_Nil_space: "py_strip ([] @ u '' '' @ []) = []"
  by (simp add: py_strip_def py_isspace_def u_def)

subsection \<open>The text of a value\<close>

lemma length_digits_power: "length (digits (10 ^ k)) = Suc k"
proof (induction k)
  case 0
  show ?case by (simp add: digits.simps)
next
  case (Suc k)
  have "\<not> (10 :: nat) ^ Suc k < 10" by simp
  then have "digits (10 ^ Suc k) = digits (10 ^ Suc k div 10) @ [48 + 10 ^ Suc k mod 10]"
    by (subst digits.simps) simp
  with Suc show ?case by simp
qed

lemma str_int_beyond_limit:
  assumes "640 \<le> int_max_str_digits py"
    and "int_max_str_digits py < length (digits (nat \<bar>n\<bar>))"
  shows "str_int py n = Inl ValueError"
proof -
  define ds where "ds = digits (nat \<bar>n\<bar>)"
  from assms have "640 < length ds" and "int_max_str_digits py < length ds"
    and "0 < int_max_str_digits py"
    by (simp_all add: ds_def)
  then show ?thesis
    unfolding str_int_def Let_def ds_def [symmetric] by auto
qed

lemma digits_power_beyond_limit:
  "int_max_str_digits py < length (digits (nat \<bar>10 ^ int_max_str_digits py\<bar>))"
  by (simp add: nat_power_eq length_digits_power)

lemma many_digits_nonzero: "1 < length (digits (nat \<bar>n\<bar>)) \<Longrightarrow> n \<noteq> 0"
  by (auto simp: digits.simps)

lemma py_str_str: "py_str py (PStr s) = Inr s"
  by simp

lemma formats_str: "formats py (PStr s)"
  by (simp add: formats_def)

lemma formats_iff: "formats py v \<longleftrightarrow> (\<exists>s. py_str py v = Inr s)"
  by (cases "py_str py v") (simp_all add: formats_def)

lemma format_spaced_Inr_iff:
  "format_spaced py a b = Inr t \<longleftrightarrow>
     (\<exists>sa sb. py_str py a = Inr sa \<and> py_str py b = Inr sb \<and> t = sa @ u '' '' @ sb)"
  by (auto simp: format_spaced_def split: sum.splits)

lemma format_spaced_total:
  "(\<exists>t. format_spaced py a b = Inr t) \<longleftrightarrow> formats py a \<and> formats py b"
  by (auto simp: format_spaced_Inr_iff formats_iff)

subsection \<open>Chains\<close>

lemma or2_chain: "py_or (py_or a b) dflt = first_truthy [a, b] dflt"
  by (simp add: py_or_def)

lemma or3_chain: "py_or (py_or (py_or a b) c) dflt = first_truthy [a, b, c] dflt"
  by (simp add: py_or_def)

lemma or1_chain: "py_or a dflt = first_truthy [a] dflt"
  by (simp add: py_or_def)

lemma py_or_falsy: "\<not> truthy a \<Longrightarrow> py_or a b = b"
  by (simp add: py_or_def)

lemma py_or_None: "py_or PNone b = b"
  by (simp add: py_or_def)

lemma lacks_get: "lacks d ks \<Longrightarrow> k \<in> set ks \<Longrightarrow> dict_get d (u k) dflt = dflt"
  by (auto simp: lacks_def list_all_iff dict_get_def)

subsection \<open>Each loop gives one output for each element, in order\<close>

lemma list_all2_total:
  "(\<exists>ys. list_all2 (\<lambda>x y. f x = Inr y) xs ys) \<longleftrightarrow> list_all (\<lambda>x. \<exists>y. f x = Inr y) xs"
proof (induction xs)
  case Nil
  show ?case by simp
next
  case (Cons x xs)
  show ?case
  proof
    assume "\<exists>ys. list_all2 (\<lambda>x y. f x = Inr y) (x # xs) ys"
    then obtain ys where "list_all2 (\<lambda>x y. f x = Inr y) (x # xs) ys" ..
    then obtain z zs where "f x = Inr z" and "list_all2 (\<lambda>x y. f x = Inr y) xs zs"
      by (auto simp: list_all2_Cons1)
    with Cons show "list_all (\<lambda>x. \<exists>y. f x = Inr y) (x # xs)" by auto
  next
    assume "list_all (\<lambda>x. \<exists>y. f x = Inr y) (x # xs)"
    with Cons obtain z zs where "f x = Inr z" and "list_all2 (\<lambda>x y. f x = Inr y) xs zs"
      by auto
    then have "list_all2 (\<lambda>x y. f x = Inr y) (x # xs) (z # zs)" by simp
    then show "\<exists>ys. list_all2 (\<lambda>x y. f x = Inr y) (x # xs) ys" ..
  qed
qed

lemma meetings_loop_iff:
  "meetings_loop ms acc = Inr r \<longleftrightarrow>
     (\<exists>oms. list_all2 (\<lambda>m om. meeting_body m = Inr om) ms oms \<and> r = acc @ oms)"
proof (induction ms arbitrary: acc)
  case Nil
  show ?case by auto
next
  case (Cons m ms)
  show ?case
  proof (cases "meeting_body m")
    case (Inl e)
    then show ?thesis by (simp add: list_all2_Cons1)
  next
    case (Inr om)
    then show ?thesis using Cons [of "acc @ [om]"] by (auto simp: list_all2_Cons1)
  qed
qed

lemma sections_loop_iff:
  "sections_loop py ss acc = Inr r \<longleftrightarrow>
     (\<exists>oss. list_all2 (\<lambda>s os. section_body py s = Inr os) ss oss \<and> r = acc @ oss)"
proof (induction ss arbitrary: acc)
  case Nil
  show ?case by auto
next
  case (Cons s ss)
  show ?case
  proof (cases "section_body py s")
    case (Inl e)
    then show ?thesis by (simp add: list_all2_Cons1)
  next
    case (Inr os)
    then show ?thesis using Cons [of "acc @ [os]"] by (auto simp: list_all2_Cons1)
  qed
qed

lemma courses_loop_iff:
  "courses_loop py cs acc = Inr r \<longleftrightarrow>
     (\<exists>ocs. list_all2 (\<lambda>c oc. course_body py c = Inr oc) cs ocs \<and> r = acc @ ocs)"
proof (induction cs arbitrary: acc)
  case Nil
  show ?case by auto
next
  case (Cons c cs)
  show ?case
  proof (cases "course_body py c")
    case (Inl e)
    then show ?thesis by (simp add: list_all2_Cons1)
  next
    case (Inr oc)
    then show ?thesis using Cons [of "acc @ [oc]"] by (auto simp: list_all2_Cons1)
  qed
qed

lemma instructors_loop_iff:
  "instructors_loop py xs acc = Inr r \<longleftrightarrow>
     (\<exists>ns. list_all2 (\<lambda>i n. instructor_name py i = Inr n) xs ns
        \<and> r = acc @ filter truthy ns)"
proof (induction xs arbitrary: acc)
  case Nil
  show ?case by auto
next
  case (Cons i xs)
  show ?case
  proof (cases "instructor_name py i")
    case (Inl e)
    then show ?thesis by (simp add: instructor_body_def list_all2_Cons1)
  next
    case (Inr n)
    then show ?thesis
      using Cons [of "if truthy n then acc @ [n] else acc"]
      by (auto simp: instructor_body_def list_all2_Cons1)
  qed
qed

subsection \<open>Which elements have an output\<close>

lemma meeting_body_dict:
  "\<exists>om. meeting_body (PDict d) = Inr om \<and> meeting_ok om"
  by (simp add: meeting_body_def meeting_ok_def has_keys_def Let_def)

lemma meeting_body_Inr: "meeting_body m = Inr om \<Longrightarrow> meeting_ok om"
  by (cases m) (auto simp: meeting_body_def meeting_ok_def has_keys_def Let_def)

lemma meeting_body_total: "(\<exists>om. meeting_body m = Inr om) \<longleftrightarrow> is_dict m"
  by (cases m) (simp_all add: meeting_body_def Let_def)

lemma instructor_name_total:
  "(\<exists>n. instructor_name py i = Inr n) \<longleftrightarrow> instructor_shape py i"
proof (cases i)
  case (PDict d)
  show ?thesis
  proof (cases "truthy (get d ''name'')")
    case True
    with PDict show ?thesis by (simp add: instructor_name_def instructor_shape_def)
  next
    case False
    have "(\<exists>n. (case format_spaced py (dict_get d (u ''firstName'') (PStr []))
                       (dict_get d (u ''lastName'') (PStr [])) of
                  Inl e \<Rightarrow> Inl e
                | Inr joined \<Rightarrow> Inr (PStr (py_strip joined))) = Inr n)
          \<longleftrightarrow> (\<exists>t. format_spaced py (dict_get d (u ''firstName'') (PStr []))
                       (dict_get d (u ''lastName'') (PStr [])) = Inr t)"
      by (auto split: sum.splits)
    with PDict False show ?thesis
      by (simp add: instructor_name_def instructor_shape_def format_spaced_total)
  qed
qed (simp_all add: instructor_name_def instructor_shape_def)

lemma instructor_shape_dict: "instructor_shape py i \<Longrightarrow> is_dict i"
  by (cases i) (simp_all add: instructor_shape_def)

lemma meetings_loop_total:
  "(\<exists>r. meetings_loop ms acc = Inr r) \<longleftrightarrow> list_all is_dict ms"
proof -
  have "(\<exists>r. meetings_loop ms acc = Inr r)
      \<longleftrightarrow> (\<exists>oms. list_all2 (\<lambda>m om. meeting_body m = Inr om) ms oms)"
    by (auto simp: meetings_loop_iff)
  also have "\<dots> \<longleftrightarrow> list_all (\<lambda>m. \<exists>om. meeting_body m = Inr om) ms"
    by (rule list_all2_total)
  finally show ?thesis by (simp add: meeting_body_total)
qed

lemma instructors_loop_total:
  "(\<exists>r. instructors_loop py xs acc = Inr r) \<longleftrightarrow> list_all (instructor_shape py) xs"
proof -
  have "(\<exists>r. instructors_loop py xs acc = Inr r)
      \<longleftrightarrow> (\<exists>ns. list_all2 (\<lambda>i n. instructor_name py i = Inr n) xs ns)"
    by (auto simp: instructors_loop_iff)
  also have "\<dots> \<longleftrightarrow> list_all (\<lambda>i. \<exists>n. instructor_name py i = Inr n) xs"
    by (rule list_all2_total)
  finally show ?thesis by (simp add: instructor_name_total)
qed

lemma py_iter_elements:
  assumes "\<And>x. Q x \<Longrightarrow> is_dict x"
  shows "(\<exists>xs. py_iter v = Inr xs \<and> list_all Q xs) \<longleftrightarrow> collection_of Q v"
proof (cases v)
  case (PStr s)
  have "\<not> Q (PStr [c])" for c using assms [of "PStr [c]"] by auto
  then have "list_all Q (map (\<lambda>c. PStr [c]) s) \<longleftrightarrow> s = []" by (cases s) auto
  with PStr show ?thesis by (simp add: collection_of_def elements_def)
next
  case (PDict kvs)
  have "\<not> Q (PStr k)" for k using assms [of "PStr k"] by auto
  then have "list_all Q (map (\<lambda>kv. PStr (fst kv)) kvs) \<longleftrightarrow> kvs = []" by (cases kvs) auto
  with PDict show ?thesis by (simp add: collection_of_def elements_def)
qed (simp_all add: collection_of_def elements_def)

lemma section_body_total:
  "(\<exists>os. section_body py s = Inr os) \<longleftrightarrow> section_shape py s"
proof (cases s)
  case (PDict d)
  define I where "I = dict_get d (u ''instructors'') (PList [])"
  define M where "M = dict_get d (u ''meetings'') (PList [])"
  have "(\<exists>os. section_body py (PDict d) = Inr os)
      \<longleftrightarrow> (\<exists>xs. py_iter I = Inr xs \<and> (\<exists>r. instructors_loop py xs [] = Inr r))
          \<and> (\<exists>ms. py_iter M = Inr ms \<and> (\<exists>r. meetings_loop ms [] = Inr r))"
    by (auto simp: section_body_def I_def M_def Let_def split: sum.splits)
  also have "\<dots> \<longleftrightarrow> (\<exists>xs. py_iter I = Inr xs \<and> list_all (instructor_shape py) xs)
          \<and> (\<exists>ms. py_iter M = Inr ms \<and> list_all is_dict ms)"
    by (simp add: instructors_loop_total meetings_loop_total)
  also have "\<dots> \<longleftrightarrow> collection_of (instructor_shape py) I \<and> collection_of is_dict M"
    by (simp add: py_iter_elements instructor_shape_dict)
  finally show ?thesis
    by (simp add: PDict section_shape_def I_def M_def)
qed (simp_all add: section_body_def section_shape_def)

lemma section_shape_dict: "section_shape py s \<Longrightarrow> is_dict s"
  by (cases s) (simp_all add: section_shape_def)

lemma sections_loop_total:
  "(\<exists>r. sections_loop py ss acc = Inr r) \<longleftrightarrow> list_all (section_shape py) ss"
proof -
  have "(\<exists>r. sections_loop py ss acc = Inr r)
      \<longleftrightarrow> (\<exists>oss. list_all2 (\<lambda>s os. section_body py s = Inr os) ss oss)"
    by (auto simp: sections_loop_iff)
  also have "\<dots> \<longleftrightarrow> list_all (\<lambda>s. \<exists>os. section_body py s = Inr os) ss"
    by (rule list_all2_total)
  finally show ?thesis by (simp add: section_body_total)
qed

lemma course_body_total:
  "(\<exists>oc. course_body py c = Inr oc) \<longleftrightarrow> course_shape py c"
proof (cases c)
  case (PDict d)
  define S where "S = dict_get d (u ''sections'') (PList [])"
  define subject where
    "subject = py_or (py_or (get d ''subjectCode'') (get d ''subject'')) (PStr [])"
  define number where
    "number = py_or (py_or (py_or (get d ''courseNumber'') (get d ''code''))
                (get d ''catalogNumber'')) (PStr [])"
  have "(\<exists>oc. course_body py (PDict d) = Inr oc)
      \<longleftrightarrow> (\<exists>ss. py_iter S = Inr ss \<and> (\<exists>r. sections_loop py ss [] = Inr r))
          \<and> (\<exists>t. format_spaced py subject number = Inr t)
          \<and> (\<exists>n. py_str py number = Inr n)"
    by (auto simp: course_body_def S_def subject_def number_def Let_def split: sum.splits)
  also have "\<dots> \<longleftrightarrow> (\<exists>ss. py_iter S = Inr ss \<and> list_all (section_shape py) ss)
          \<and> formats py subject \<and> formats py number"
    by (auto simp: sections_loop_total format_spaced_total formats_iff)
  also have "\<dots> \<longleftrightarrow> collection_of (section_shape py) S
          \<and> formats py subject \<and> formats py number"
    by (simp add: py_iter_elements section_shape_dict)
  finally have "(\<exists>oc. course_body py (PDict d) = Inr oc)
      \<longleftrightarrow> collection_of (section_shape py) S \<and> formats py subject \<and> formats py number" .
  moreover have "subject = first_truthy [get d ''subjectCode'', get d ''subject''] (PStr [])"
    unfolding subject_def by (rule or2_chain)
  moreover have "number =
      first_truthy [get d ''courseNumber'', get d ''code'', get d ''catalogNumber''] (PStr [])"
    unfolding number_def by (rule or3_chain)
  ultimately show ?thesis
    unfolding PDict course_shape_def S_def by simp
qed (simp_all add: course_body_def course_shape_def)

lemma courses_loop_total:
  "(\<exists>r. courses_loop py cs acc = Inr r) \<longleftrightarrow> list_all (course_shape py) cs"
proof -
  have "(\<exists>r. courses_loop py cs acc = Inr r)
      \<longleftrightarrow> (\<exists>ocs. list_all2 (\<lambda>c oc. course_body py c = Inr oc) cs ocs)"
    by (auto simp: courses_loop_iff)
  also have "\<dots> \<longleftrightarrow> list_all (\<lambda>c. \<exists>oc. course_body py c = Inr oc) cs"
    by (rule list_all2_total)
  finally show ?thesis by (simp add: course_body_total)
qed

lemma transform_total:
  "(\<exists>out. transform_to_quacs_schema py (PList cs) = Inr out) \<longleftrightarrow> list_all (course_shape py) cs"
proof -
  have "(\<exists>out. transform_to_quacs_schema py (PList cs) = Inr out)
      \<longleftrightarrow> (\<exists>r. courses_loop py cs [] = Inr r)"
    by (auto simp: transform_to_quacs_schema_def split: sum.splits)
  then show ?thesis by (simp add: courses_loop_total)
qed

subsection \<open>The loops keep the schema\<close>

lemma list_all2_outputs:
  assumes "list_all2 (\<lambda>x y. f x = Inr y) xs ys" and "\<And>x y. f x = Inr y \<Longrightarrow> Q y"
  shows "list_all Q ys"
  using assms by (induction rule: list_all2_induct) auto

lemma meetings_loop_Inr: "meetings_loop ms [] = Inr r \<Longrightarrow> list_all meeting_ok r"
  by (auto simp: meetings_loop_iff intro: list_all2_outputs meeting_body_Inr)

lemma section_body_Inr: "section_body py s = Inr os \<Longrightarrow> section_ok os"
  by (cases s)
     (auto simp: section_body_def section_ok_def has_keys_def field_def list_of_def
         dict_get_def u_eq_iff Let_def
       split: sum.splits dest: meetings_loop_Inr)

lemma sections_loop_Inr: "sections_loop py ss [] = Inr r \<Longrightarrow> list_all section_ok r"
  by (auto simp: sections_loop_iff intro: list_all2_outputs section_body_Inr)

lemma course_body_Inr: "course_body py c = Inr oc \<Longrightarrow> course_ok oc"
  by (cases c)
     (auto simp: course_body_def course_ok_def has_keys_def field_def list_of_def
         dict_get_def u_eq_iff Let_def
       split: sum.splits dest: sections_loop_Inr)

lemma courses_loop_Inr: "courses_loop py cs [] = Inr r \<Longrightarrow> list_all course_ok r"
  by (auto simp: courses_loop_iff intro: list_all2_outputs course_body_Inr)

lemma transform_Inr: "transform_to_quacs_schema py raw = Inr out \<Longrightarrow> document_ok out"
  by (auto simp: transform_to_quacs_schema_def document_ok_def has_keys_def field_def
        list_of_def dict_get_def
      split: sum.splits dest: courses_loop_Inr)

lemma transform_example_courses:
  "transform_to_quacs_schema py example_courses = Inr example_document"
  by (simp add: example_courses_def example_document_def body_defs eval_defs)

subsection \<open>The output records and the raw records they come from\<close>

lemma transform_rows:
  assumes "transform_to_quacs_schema py (PList cs) = Inr doc"
  shows "doc = PDict [(u ''courses'', PList (items ''courses'' doc))]"
    and "list_all2 (\<lambda>c oc. course_body py c = Inr oc) cs (items ''courses'' doc)"
  using assms
  by (auto simp: transform_to_quacs_schema_def items_def field_def dict_get_Cons
        courses_loop_iff split: sum.splits)

lemma course_body_rows:
  assumes "course_body py c = Inr oc"
  shows "list_all2 (\<lambda>s os. section_body py s = Inr os)
           (visited ''sections'' c) (items ''sections'' oc)"
  using assms
  by (cases c)
     (auto simp: course_body_def visited_def items_def field_def dict_get_Cons u_eq_iff
        sections_loop_iff Let_def split: sum.splits)

lemma section_body_rows:
  assumes "section_body py s = Inr os"
  shows "list_all2 (\<lambda>m om. meeting_body m = Inr om)
           (visited ''meetings'' s) (items ''meetings'' os)"
    and "instructors_loop py (visited ''instructors'' s) [] = Inr (items ''instructors'' os)"
    and "field ''instructors'' os = PList (items ''instructors'' os)"
  using assms
  by (cases s;
      auto simp: section_body_def visited_def items_def field_def dict_get_Cons u_eq_iff
        meetings_loop_iff Let_def split: sum.splits)+

subsection \<open>Trimming, output fields and fallback chains\<close>

lemma strip_trimmed:
  "py_strip s = [] \<or> (\<not> py_isspace (hd (py_strip s)) \<and> \<not> py_isspace (last (py_strip s)))"
proof (cases "py_strip s = []")
  case True
  then show ?thesis by simp
next
  case False
  define ys where "ys = dropWhile py_isspace s"
  define zs where "zs = dropWhile py_isspace (rev ys)"
  have strip: "py_strip s = rev zs" by (simp add: py_strip_def ys_def zs_def)
  with False have zs: "zs \<noteq> []" by simp
  then have "\<not> py_isspace (hd zs)" unfolding zs_def by (rule hd_dropWhile)
  with zs have last: "\<not> py_isspace (last (py_strip s))" by (simp add: strip last_rev)
  from zs have ys: "ys \<noteq> []" by (auto simp: zs_def)
  then have hd_ys: "\<not> py_isspace (hd ys)" unfolding ys_def by (rule hd_dropWhile)
  have "rev ys = takeWhile py_isspace (rev ys) @ zs"
    by (simp add: zs_def)
  then have "ys = rev zs @ rev (takeWhile py_isspace (rev ys))"
    by (metis rev_append rev_rev_ident)
  with zs have "hd ys = hd (rev zs)" by (metis hd_append2 rev_is_Nil_conv)
  with hd_ys have "\<not> py_isspace (hd (py_strip s))" by (simp add: strip)
  with last show ?thesis by simp
qed

lemma visited_absent: "map_of d (u k) = None \<Longrightarrow> visited k (PDict d) = []"
  by (simp add: visited_def dict_get_def)

lemma absent_or_empty_iter:
  "absent_or_empty d k \<Longrightarrow> py_iter (dict_get d (u k) (PList [])) = Inr []"
  by (auto simp: absent_or_empty_def dict_get_def split: option.splits)

lemma meeting_body_fields:
  assumes "meeting_body (PDict d) = Inr om"
  shows "field ''days'' om = py_or (py_or (get d ''days'') (get d ''pattern'')) (PStr [])"
    and "field ''start'' om = get d ''startTime''"
    and "field ''end'' om = get d ''endTime''"
    and "field ''campus'' om = py_or (get d ''campus'') (get d ''campusName'')"
    and "field ''building'' om = py_or (get d ''building'') (get d ''buildingName'')"
    and "field ''room'' om = py_or (get d ''room'') (PStr [])"
    and "field ''modality'' om
           = py_or (py_or (get d ''instructionMode'') (get d ''mode'')) (PStr [])"
  using assms
  by (auto simp: meeting_body_def field_def dict_get_Cons u_eq_iff Let_def)

lemma section_body_fields:
  assumes "section_body py (PDict d) = Inr os"
  shows "field ''section'' os
           = py_or (py_or (py_or (get d ''sectionCode'') (get d ''code''))
               (get d ''registrationNumber'')) (PStr [])"
    and "field ''meetings'' os = PList (items ''meetings'' os)"
  using assms
  by (auto simp: section_body_def field_def items_def dict_get_Cons u_eq_iff Let_def
        split: sum.splits)

lemma course_body_fields:
  assumes "course_body py (PDict d) = Inr oc"
  shows "\<exists>a n.
      py_str py (py_or (py_or (get d ''subjectCode'') (get d ''subject'')) (PStr [])) = Inr a
      \<and> py_str py (py_or (py_or (py_or (get d ''courseNumber'') (get d ''code''))
                      (get d ''catalogNumber'')) (PStr [])) = Inr n
      \<and> field ''id'' oc = PStr (py_strip (a @ u '' '' @ n))
      \<and> field ''subject'' oc
          = py_or (py_or (get d ''subjectCode'') (get d ''subject'')) (PStr [])
      \<and> field ''number'' oc = PStr n
      \<and> field ''title'' oc = py_or (py_or (get d ''name'') (get d ''title'')) (PStr [])
      \<and> field ''credits'' oc
          = py_or (py_or (get d ''credits'') (get d ''minCredits'')) (PInt 0)
      \<and> field ''sections'' oc = PList (items ''sections'' oc)"
  using assms
  by (auto simp: course_body_def format_spaced_def field_def items_def dict_get_Cons u_eq_iff
        Let_def split: sum.splits)

lemma course_body_is_dict: "course_body py c = Inr oc \<Longrightarrow> \<exists>d. c = PDict d"
  by (cases c) (simp_all add: course_body_def)

lemma number_or_absent_get:
  "number_or_absent d k \<Longrightarrow> truthy (get d k) \<Longrightarrow> is_number (get d k)"
  by (auto simp: number_or_absent_def dict_get_def split: option.splits)

lemma instructor_name_truthy_or_str:
  "instructor_name py i = Inr n \<Longrightarrow> truthy n \<longleftrightarrow> n \<noteq> PStr []"
  by (cases i) (auto simp: instructor_name_def split: if_splits sum.splits)

lemma instructor_names_filter:
  assumes "list_all2 (\<lambda>i n. instructor_name py i = Inr n) xs ns"
  shows "filter truthy ns = filter (\<lambda>n. n \<noteq> PStr []) ns"
  using assms
  by (induction rule: list_all2_induct) (auto dest: instructor_name_truthy_or_str)

lemma map_of_dict_del:
  "map_of (dict_del k d) k' = (if k' = u k then None else map_of d k')"
  by (induction d) (auto simp: dict_del_def)

lemma dict_get_del:
  "dict_get (dict_del k d) k' dflt = (if k' = u k then dflt else dict_get d k' dflt)"
  by (simp add: dict_get_def map_of_dict_del)

lemma present_falsy_get: "present_falsy d k \<Longrightarrow> \<not> truthy (get d k)"
  by (auto simp: present_falsy_def dict_get_def split: option.splits)

lemma course_body_same_lookups:
  assumes "py_or (py_or (get d ''subjectCode'') (get d ''subject'')) (PStr [])
            = py_or (py_or (get d' ''subjectCode'') (get d' ''subject'')) (PStr [])"
    and "py_or (py_or (py_or (get d ''courseNumber'') (get d ''code''))
                 (get d ''catalogNumber'')) (PStr [])
          = py_or (py_or (py_or (get d' ''courseNumber'') (get d' ''code''))
                 (get d' ''catalogNumber'')) (PStr [])"
    and "py_or (py_or (get d ''name'') (get d ''title'')) (PStr [])
          = py_or (py_or (get d' ''name'') (get d' ''title'')) (PStr [])"
    and "py_or (py_or (get d ''credits'') (get d ''minCredits'')) (PInt 0)
          = py_or (py_or (get d' ''credits'') (get d' ''minCredits'')) (PInt 0)"
    and "dict_get d (u ''sections'') (PList []) = dict_get d' (u ''sections'') (PList [])"
  shows "course_body py (PDict d) = course_body py (PDict d')"
  unfolding course_body_def Let_def pyval.case assms ..

lemma section_body_same_lookups:
  assumes "py_or (py_or (py_or (get d ''sectionCode'') (get d ''code''))
                 (get d ''registrationNumber'')) (PStr [])
            = py_or (py_or (py_or (get d' ''sectionCode'') (get d' ''code''))
                 (get d' ''registrationNumber'')) (PStr [])"
    and "dict_get d (u ''instructors'') (PList []) = dict_get d' (u ''instructors'') (PList [])"
    and "dict_get d (u ''meetings'') (PList []) = dict_get d' (u ''meetings'') (PList [])"
  shows "section_body py (PDict d) = section_body py (PDict d')"
  unfolding section_body_def Let_def pyval.case assms ..

lemma get_del_other: "k' \<noteq> k \<Longrightarrow> dict_get (dict_del k d) (u k') dflt = dict_get d (u k') dflt"
  by (simp add: dict_get_del u_eq_iff)

lemma get_del_same: "dict_get (dict_del k d) (u k) dflt = dflt"
  by (simp add: dict_get_del)

lemma chain_skips_falsy:
  assumes "\<not> truthy (get d k)"
  shows "first_truthy (map (get (dict_del k d)) ks) dflt = first_truthy (map (get d) ks) dflt"
proof (induction ks)
  case Nil
  show ?case by simp
next
  case (Cons a ks)
  show ?case
  proof (cases "a = k")
    case True
    with assms Cons show ?thesis by (simp add: get_del_same)
  next
    case False
    with Cons show ?thesis by (simp add: get_del_other)
  qed
qed

lemma course_skips_falsy:
  assumes "present_falsy d k" and "k \<noteq> ''sections''"
  shows "course_body py (PDict d) = course_body py (PDict (dict_del k d))"
proof (rule course_body_same_lookups)
  note f = present_falsy_get [OF assms(1)]
  show "py_or (py_or (get d ''subjectCode'') (get d ''subject'')) (PStr [])
      = py_or (py_or (get (dict_del k d) ''subjectCode'') (get (dict_del k d) ''subject''))
          (PStr [])"
    using chain_skips_falsy [OF f, of "[''subjectCode'', ''subject'']"]
    by (simp add: or2_chain)
  show "py_or (py_or (py_or (get d ''courseNumber'') (get d ''code''))
                 (get d ''catalogNumber'')) (PStr [])
      = py_or (py_or (py_or (get (dict_del k d) ''courseNumber'') (get (dict_del k d) ''code''))
                 (get (dict_del k d) ''catalogNumber'')) (PStr [])"
    using chain_skips_falsy [OF f, of "[''courseNumber'', ''code'', ''catalogNumber'']"]
    by (simp add: or3_chain)
  show "py_or (py_or (get d ''name'') (get d ''title'')) (PStr [])
      = py_or (py_or (get (dict_del k d) ''name'') (get (dict_del k d) ''title'')) (PStr [])"
    using chain_skips_falsy [OF f, of "[''name'', ''title'']"]
    by (simp add: or2_chain)
  show "py_or (py_or (get d ''credits'') (get d ''minCredits'')) (PInt 0)
      = py_or (py_or (get (dict_del k d) ''credits'') (get (dict_del k d) ''minCredits''))
          (PInt 0)"
    using chain_skips_falsy [OF f, of "[''credits'', ''minCredits'']"]
    by (simp add: or2_chain)
  show "dict_get d (u ''sections'') (PList [])
      = dict_get (dict_del k d) (u ''sections'') (PList [])"
    using assms(2) by (simp add: get_del_other)
qed

lemma section_skips_falsy:
  assumes "present_falsy d k" and "k \<noteq> ''instructors''" and "k \<noteq> ''meetings''"
  shows "section_body py (PDict d) = section_body py (PDict (dict_del k d))"
proof (rule section_body_same_lookups)
  note f = present_falsy_get [OF assms(1)]
  show "py_or (py_or (py_or (get d ''sectionCode'') (get d ''code''))
                 (get d ''registrationNumber'')) (PStr [])
      = py_or (py_or (py_or (get (dict_del k d) ''sectionCode'') (get (dict_del k d) ''code''))
                 (get (dict_del k d) ''registrationNumber'')) (PStr [])"
    using chain_skips_falsy [OF f, of "[''sectionCode'', ''code'', ''registrationNumber'']"]
    by (simp add: or3_chain)
  show "dict_get d (u ''instructors'') (PList [])
      = dict_get (dict_del k d) (u ''instructors'') (PList [])"
    using assms(2) by (simp add: get_del_other)
  show "dict_get d (u ''meetings'') (PList [])
      = dict_get (dict_del k d) (u ''meetings'') (PList [])"
    using assms(3) by (simp add: get_del_other)
qed

lemma instructor_skips_falsy:
  assumes "present_falsy d ''name''"
  shows "instructor_body py (PDict d) instrs
          = instructor_body py (PDict (dict_del ''name'' d)) instrs"
proof -
  note f = present_falsy_get [OF assms]
  have "instructor_name py (PDict d) = instructor_name py (PDict (dict_del ''name'' d))"
    using f by (simp add: instructor_name_def get_del_same get_del_other)
  then show ?thesis by (simp add: instructor_body_def)
qed

lemma meeting_skips_falsy:
  assumes "present_falsy d k" and "k \<noteq> ''startTime''" and "k \<noteq> ''endTime''"
    and "k \<noteq> ''campusName''" and "k \<noteq> ''buildingName''"
  shows "meeting_body (PDict d) = meeting_body (PDict (dict_del k d))"
proof -
  note f = present_falsy_get [OF assms(1)]
  have days: "py_or (py_or (get (dict_del k d) ''days'') (get (dict_del k d) ''pattern''))
                (PStr [])
      = py_or (py_or (get d ''days'') (get d ''pattern'')) (PStr [])"
    using chain_skips_falsy [OF f, of "[''days'', ''pattern'']"] by (simp add: or2_chain)
  have start: "get (dict_del k d) ''startTime'' = get d ''startTime''"
    using assms(2) by (simp add: get_del_other)
  have "end": "get (dict_del k d) ''endTime'' = get d ''endTime''"
    using assms(3) by (simp add: get_del_other)
  have campus: "py_or (get (dict_del k d) ''campus'') (get (dict_del k d) ''campusName'')
      = py_or (get d ''campus'') (get d ''campusName'')"
    using chain_skips_falsy [OF f, of "[''campus'']" "get d ''campusName''"] assms(4)
    by (simp add: or1_chain get_del_other)
  have building: "py_or (get (dict_del k d) ''building'') (get (dict_del k d) ''buildingName'')
      = py_or (get d ''building'') (get d ''buildingName'')"
    using chain_skips_falsy [OF f, of "[''building'']" "get d ''buildingName''"] assms(5)
    by (simp add: or1_chain get_del_other)
  have room: "py_or (get (dict_del k d) ''room'') (PStr []) = py_or (get d ''room'') (PStr [])"
    using chain_skips_falsy [OF f, of "[''room'']"] by (simp add: or1_chain)
  have modality: "py_or (py_or (get (dict_del k d) ''instructionMode'')
                    (get (dict_del k d) ''mode'')) (PStr [])
      = py_or (py_or (get d ''instructionMode'') (get d ''mode'')) (PStr [])"
    using chain_skips_falsy [OF f, of "[''instructionMode'', ''mode'']"]
    by (simp add: or2_chain)
  show ?thesis
    unfolding meeting_body_def pyval.case days start "end" campus building room modality ..
qed

subsection \<open>Defaults, field by field\<close>

lemma meeting_default_fields:
  assumes "meeting_body (PDict d) = Inr om" and "(f, ks, dflt) \<in> set meeting_defaults"
    and "lacks d ks"
  shows "field f om = dflt"
proof -
  note fs = meeting_body_fields [OF assms(1)]
  from assms(2,3) show ?thesis
    unfolding meeting_defaults_def
    by (auto simp: fs lacks_def dict_get_def py_or_def)
qed

lemma section_default_fields:
  assumes "section_body py (PDict d) = Inr os" and "(f, ks, dflt) \<in> set section_defaults"
    and "lacks d ks"
  shows "field f os = dflt"
proof -
  note fs = section_body_fields [OF assms(1)]
  note rows = section_body_rows [OF assms(1)]
  have i: "map_of d (u ''instructors'') = None \<Longrightarrow> items ''instructors'' os = []"
    using rows(2) by (simp add: visited_absent)
  have m: "map_of d (u ''meetings'') = None \<Longrightarrow> items ''meetings'' os = []"
    using rows(1) by (simp add: visited_absent)
  from assms(2,3) show ?thesis
    unfolding section_defaults_def
    by (auto simp: fs rows(3) i m lacks_def dict_get_def py_or_def)
qed

lemma course_default_fields:
  assumes "course_body py (PDict d) = Inr oc" and "(f, ks, dflt) \<in> set course_field_defaults"
    and "lacks d ks"
  shows "field f oc = dflt"
proof -
  from course_body_fields [OF assms(1)] obtain a n where
    a: "py_str py (py_or (py_or (get d ''subjectCode'') (get d ''subject'')) (PStr [])) = Inr a"
    and n: "py_str py (py_or (py_or (py_or (get d ''courseNumber'') (get d ''code''))
                      (get d ''catalogNumber'')) (PStr [])) = Inr n"
    and fs: "field ''id'' oc = PStr (py_strip (a @ u '' '' @ n))"
      "field ''subject'' oc
          = py_or (py_or (get d ''subjectCode'') (get d ''subject'')) (PStr [])"
      "field ''number'' oc = PStr n"
      "field ''title'' oc = py_or (py_or (get d ''name'') (get d ''title'')) (PStr [])"
      "field ''credits'' oc
          = py_or (py_or (get d ''credits'') (get d ''minCredits'')) (PInt 0)"
      "field ''sections'' oc = PList (items ''sections'' oc)"
    by blast
  have s: "map_of d (u ''sections'') = None \<Longrightarrow> items ''sections'' oc = []"
    using course_body_rows [OF assms(1)] by (simp add: visited_absent)
  from assms(2,3) a n show ?thesis
    unfolding course_field_defaults_def
    by (auto simp: fs s lacks_def dict_get_def py_or_def strip_space)
qed

subsection \<open>The records of a returned document, level by level\<close>

lemma transform_meetings:
  assumes "transform_to_quacs_schema py (PList cs) = Inr out"
  shows "list_all2
          (\<lambda>c oc. course_body py c = Inr oc
             \<and> list_all2
                 (\<lambda>s os. section_body py s = Inr os
                    \<and> list_all2 (\<lambda>m om. meeting_body m = Inr om \<and> meeting_ok om)
                        (visited ''meetings'' s) (items ''meetings'' os))
                 (visited ''sections'' c) (items ''sections'' oc))
          cs (items ''courses'' out)"
proof -
  have s: "section_body py s = Inr os
      \<and> list_all2 (\<lambda>m om. meeting_body m = Inr om \<and> meeting_ok om)
            (visited ''meetings'' s) (items ''meetings'' os)"
    if b: "section_body py s = Inr os" for s os
  proof
    show "section_body py s = Inr os" by (rule b)
    from section_body_rows(1) [OF b]
    show "list_all2 (\<lambda>m om. meeting_body m = Inr om \<and> meeting_ok om)
            (visited ''meetings'' s) (items ''meetings'' os)"
      by (rule list_all2_mono) (simp add: meeting_body_Inr)
  qed
  have c: "course_body py c = Inr oc
      \<and> list_all2
            (\<lambda>s os. section_body py s = Inr os
               \<and> list_all2 (\<lambda>m om. meeting_body m = Inr om \<and> meeting_ok om)
                   (visited ''meetings'' s) (items ''meetings'' os))
            (visited ''sections'' c) (items ''sections'' oc)"
    if b: "course_body py c = Inr oc" for c oc
  proof
    show "course_body py c = Inr oc" by (rule b)
    from course_body_rows [OF b]
    show "list_all2
            (\<lambda>s os. section_body py s = Inr os
               \<and> list_all2 (\<lambda>m om. meeting_body m = Inr om \<and> meeting_ok om)
                   (visited ''meetings'' s) (items ''meetings'' os))
            (visited ''sections'' c) (items ''sections'' oc)"
      by (rule list_all2_mono) (rule s)
  qed
  from transform_rows(2) [OF assms] show ?thesis
    by (rule list_all2_mono) (rule c)
qed

lemma transform_instructors:
  assumes "transform_to_quacs_schema py (PList cs) = Inr doc"
  shows "list_all2
          (\<lambda>c oc. list_all2
             (\<lambda>s os. \<exists>r. instructors_loop py (visited ''instructors'' s) [] = Inr r
                       \<and> field ''instructors'' os = PList r)
             (visited ''sections'' c) (items ''sections'' oc))
          cs (items ''courses'' doc)"
proof -
  have s: "\<exists>r. instructors_loop py (visited ''instructors'' s) [] = Inr r
               \<and> field ''instructors'' os = PList r"
    if b: "section_body py s = Inr os" for s os
    using section_body_rows(2,3) [OF b] by blast
  have c: "list_all2
             (\<lambda>s os. \<exists>r. instructors_loop py (visited ''instructors'' s) [] = Inr r
                       \<and> field ''instructors'' os = PList r)
             (visited ''sections'' c) (items ''sections'' oc)"
    if b: "course_body py c = Inr oc" for c oc
    using course_body_rows [OF b] by (rule list_all2_mono) (rule s)
  from transform_rows(2) [OF assms] show ?thesis
    by (rule list_all2_mono) (rule c)
qed

lemma transform_ids:
  assumes "transform_to_quacs_schema py (PList cs) = Inr doc"
  shows "list_all2
          (\<lambda>c oc. \<exists>d a n. c = PDict d
             \<and> py_str py (first_truthy [get d ''subjectCode'', get d ''subject''] (PStr []))
                 = Inr a
             \<and> py_str py
                   (first_truthy [get d ''courseNumber'', get d ''code'', get d ''catalogNumber'']
                      (PStr [])) = Inr n
             \<and> field ''subject'' oc
                 = first_truthy [get d ''subjectCode'', get d ''subject''] (PStr [])
             \<and> field ''number'' oc = PStr n
             \<and> field ''id'' oc = PStr (py_strip (a @ u '' '' @ n)))
          cs (items ''courses'' doc)"
proof -
  have c: "\<exists>d a n. c = PDict d
             \<and> py_str py (first_truthy [get d ''subjectCode'', get d ''subject''] (PStr []))
                 = Inr a
             \<and> py_str py
                   (first_truthy [get d ''courseNumber'', get d ''code'', get d ''catalogNumber'']
                      (PStr [])) = Inr n
             \<and> field ''subject'' oc
                 = first_truthy [get d ''subjectCode'', get d ''subject''] (PStr [])
             \<and> field ''number'' oc = PStr n
             \<and> field ''id'' oc = PStr (py_strip (a @ u '' '' @ n))"
    if b: "course_body py c = Inr oc" for c oc
  proof -
    from course_body_is_dict [OF b] obtain d where d: "c = PDict d" ..
    from course_body_fields [OF b [unfolded d]] obtain a n where
      a: "py_str py (py_or (py_or (get d ''subjectCode'') (get d ''subject'')) (PStr []))
            = Inr a"
      and n: "py_str py (py_or (py_or (py_or (get d ''courseNumber'') (get d ''code''))
                (get d ''catalogNumber'')) (PStr [])) = Inr n"
      and i: "field ''id'' oc = PStr (py_strip (a @ u '' '' @ n))"
      and s: "field ''subject'' oc
            = py_or (py_or (get d ''subjectCode'') (get d ''subject'')) (PStr [])"
      and m: "field ''number'' oc = PStr n"
      by blast
    note a' = a [unfolded or2_chain] and n' = n [unfolded or3_chain]
      and s' = s [unfolded or2_chain]
    from d a' n' s' m i show ?thesis by blast
  qed
  from transform_rows(2) [OF assms] show ?thesis
    by (rule list_all2_mono) (rule c)
qed

lemma transform_credits:
  assumes "transform_to_quacs_schema py (PList cs) = Inr doc"
  shows "list_all2
          (\<lambda>c oc. \<exists>d. c = PDict d
             \<and> (truthy (get d ''credits'') \<longrightarrow> field ''credits'' oc = get d ''credits'')
             \<and> (\<not> truthy (get d ''credits'') \<and> truthy (get d ''minCredits'')
                  \<longrightarrow> field ''credits'' oc = get d ''minCredits'')
             \<and> (\<not> truthy (get d ''credits'') \<and> \<not> truthy (get d ''minCredits'')
                  \<longrightarrow> field ''credits'' oc = PInt 0)
             \<and> (number_or_absent d ''credits'' \<and> number_or_absent d ''minCredits''
                  \<longrightarrow> is_number (field ''credits'' oc)))
          cs (items ''courses'' doc)"
proof -
  have c: "\<exists>d. c = PDict d
             \<and> (truthy (get d ''credits'') \<longrightarrow> field ''credits'' oc = get d ''credits'')
             \<and> (\<not> truthy (get d ''credits'') \<and> truthy (get d ''minCredits'')
                  \<longrightarrow> field ''credits'' oc = get d ''minCredits'')
             \<and> (\<not> truthy (get d ''credits'') \<and> \<not> truthy (get d ''minCredits'')
                  \<longrightarrow> field ''credits'' oc = PInt 0)
             \<and> (number_or_absent d ''credits'' \<and> number_or_absent d ''minCredits''
                  \<longrightarrow> is_number (field ''credits'' oc))"
    if b: "course_body py c = Inr oc" for c oc
  proof -
    from course_body_is_dict [OF b] obtain d where d: "c = PDict d" ..
    from course_body_fields [OF b [unfolded d]]
    have f: "field ''credits'' oc
        = py_or (py_or (get d ''credits'') (get d ''minCredits'')) (PInt 0)"
      by blast
    have "is_number (field ''credits'' oc)"
      if "number_or_absent d ''credits''" and "number_or_absent d ''minCredits''"
      using that number_or_absent_get [of d "''credits''"]
        number_or_absent_get [of d "''minCredits''"]
      by (auto simp: f py_or_def)
    with d f show ?thesis by (simp add: py_or_def)
  qed
  from transform_rows(2) [OF assms] show ?thesis
    by (rule list_all2_mono) (rule c)
qed

lemma items_courses: "items ''courses'' (PDict [(u ''courses'', PList xs)]) = xs"
  by (simp add: items_def field_def dict_get_def)

subsection \<open>Courses that have none of the optional fields\<close>

lemma bare_course_body:
  assumes "lacks d [''subjectCode'', ''subject'', ''courseNumber'', ''code'', ''catalogNumber'',
                    ''name'', ''title'', ''credits'', ''minCredits'', ''sections'']"
  shows "course_body py (PDict d) =
           Inr (PDict [(u ''id'', PStr []), (u ''subject'', PStr []), (u ''number'', PStr []),
                       (u ''title'', PStr []), (u ''credits'', PInt 0),
                       (u ''sections'', PList [])])"
  using assms
  by (simp add: lacks_def course_body_def format_spaced_def dict_get_def py_or_def strip_space
      Let_def)

lemma bare_body: "bare c \<Longrightarrow> course_body py c = Inr default_course"
  by (cases c) (simp_all add: bare_def default_course_def bare_course_body)

lemma courses_loop_bare:
  "list_all bare cs \<Longrightarrow>
     courses_loop py cs acc = Inr (acc @ replicate (length cs) default_course)"
  by (induction cs arbitrary: acc) (simp_all add: bare_body)

subsection \<open>The entry point\<close>

lemma get_json_failed: "(\<exists>e. get_json nw url params = Inl e) \<longleftrightarrow> failed (nw url params)"
  by (cases "nw url params") (auto simp: get_json_def split: option.splits)

lemma fetch_courses_request:
  "fetch_courses nw year term school subject =
     get_json nw (BASE @ u ''/v3/courses'')
       (Some [(u ''year'', PInt year), (u ''term'', PStr term),
              (u ''school'', PStr school), (u ''subject'', PStr subject)])"
  by (simp add: fetch_courses_def guess_schedge_endpoints_def u_eq_iff Let_def)

lemma courses_url_not_terms: "BASE @ u ''/v3/courses'' \<noteq> TERMS_ENDPOINT"
  by (simp add: TERMS_ENDPOINT_def u_eq_iff)

lemma mkdir_out_file:
  "mkdir w s = Inr s' \<Longrightarrow> out_file s' = out_file s \<and> stdout s' = stdout s \<and> out_dir s'"
  by (auto simp: mkdir_def split: if_splits)

lemma try_terms_log:
  "\<exists>log. try_terms w s = s\<lparr>stdout := stdout s @ log\<rparr>"
proof (cases "get_json (net w) TERMS_ENDPOINT None")
  case (Inl e)
  then have "try_terms w s = s\<lparr>stdout := stdout s @ [TermsWarning e]\<rparr>"
    by (simp add: try_terms_def print_def)
  then show ?thesis ..
next
  case (Inr terms)
  show ?thesis
  proof (cases "py_str (interp w) terms")
    case (Inl e)
    with Inr have "try_terms w s = s\<lparr>stdout := stdout s @ [TermsWarning e]\<rparr>"
      by (simp add: try_terms_def print_def)
    then show ?thesis ..
  next
    case shown: (Inr shown)
    show ?thesis
    proof (cases "encodable w (take 200 shown)")
      case True
      with Inr shown
      have "try_terms w s = s\<lparr>stdout := stdout s @ [TermsExample (take 200 shown)]\<rparr>"
        by (simp add: try_terms_def print_def)
      then show ?thesis ..
    next
      case False
      with Inr shown
      have "try_terms w s =
          s\<lparr>stdout := stdout s @ [TermsExampleBegun, TermsWarning UnicodeEncodeError]\<rparr>"
        by (simp add: try_terms_def print_def)
      then show ?thesis ..
    qed
  qed
qed

lemma try_terms_failure:
  "get_json (net w) TERMS_ENDPOINT None = Inl e \<Longrightarrow> try_terms w s = print (TermsWarning e) s"
  by (simp add: try_terms_def)

lemma main_courses_failure:
  assumes "fetch_courses (net w) YEAR TERM' MVP_SCHOOL MVP_SUBJECT = Inl e"
  shows "fst (main w s) = Some e" and "out_file (snd (main w s)) = out_file s"
proof -
  obtain log where "try_terms w (print FetchingTerms s)
      = (print FetchingTerms s)\<lparr>stdout := stdout (print FetchingTerms s) @ log\<rparr>"
    using try_terms_log by blast
  with assms show "fst (main w s) = Some e" and "out_file (snd (main w s)) = out_file s"
    by (simp_all add: main_def print_def Let_def)
qed

lemma script_courses_failure:
  assumes "fetch_courses (net w) YEAR TERM' MVP_SCHOOL MVP_SUBJECT = Inl e"
  shows "fst (script w s) \<noteq> None \<and> out_file (snd (script w s)) = out_file s"
proof (cases "mkdir w s")
  case (Inl e')
  then show ?thesis by (simp add: script_def)
next
  case (Inr s')
  with mkdir_out_file [OF Inr] main_courses_failure [OF assms, of s'] show ?thesis
    by (simp add: script_def)
qed

lemma main_terms_failure_log:
  assumes "get_json (net w) TERMS_ENDPOINT None = Inl e"
  shows "\<exists>rest. stdout (snd (main w s))
           = stdout s @ [FetchingTerms, TermsWarning e, FetchingCourses] @ rest"
  by (auto simp: main_def try_terms_failure [OF assms] print_def mkdir_def write_out_def Let_def
        split: sum.splits option.splits prod.splits)

lemma main_terms_failure_success:
  assumes "get_json (net w) TERMS_ENDPOINT None = Inl e"
    and "fetch_courses (net w) YEAR TERM' MVP_SCHOOL MVP_SUBJECT = Inr raw"
    and "py_len raw = Inr n"
    and "transform_to_quacs_schema (interp w) raw = Inr out"
    and "\<not> mkdir_fails w" and "\<not> open_fails w" and "write_fails_after w = None"
  shows "main w s =
           (None, s\<lparr>out_dir := True, out_file := Some (dumps w out),
                    stdout := stdout s @ [FetchingTerms, TermsWarning e, FetchingCourses,
                                          Transforming n, Wrote]\<rparr>)"
  using assms(2-)
  by (cases "out_dir s")
     (simp_all add: main_def try_terms_failure [OF assms(1)] print_def mkdir_def write_out_def
        Let_def)

lemma fetch_courses_ignores_terms:
  "fetch_courses (nw(TERMS_ENDPOINT := t)) year term school subject
     = fetch_courses nw year term school subject"
  by (simp add: fetch_courses_request get_json_def courses_url_not_terms)

lemma main_ignores_terms:
  "fst (main (w\<lparr>net := (net w)(TERMS_ENDPOINT := t)\<rparr>) s) = fst (main w s)
   \<and> out_file (snd (main (w\<lparr>net := (net w)(TERMS_ENDPOINT := t)\<rparr>) s))
       = out_file (snd (main w s))"
proof -
  define s1 where "s1 = print FetchingTerms s"
  obtain log where a: "try_terms w s1 = s1\<lparr>stdout := stdout s1 @ log\<rparr>"
    using try_terms_log by blast
  obtain log' where b: "try_terms (w\<lparr>net := (net w)(TERMS_ENDPOINT := t)\<rparr>) s1
      = s1\<lparr>stdout := stdout s1 @ log'\<rparr>"
    using try_terms_log by blast
  show ?thesis
    unfolding main_def Let_def s1_def [symmetric] a b
    by (auto simp: print_def mkdir_def write_out_def fetch_courses_ignores_terms
          split: sum.splits option.splits prod.splits)
qed

lemma example_world_courses_fail:
  "fetch_courses (net (example_world terms (Reply 503 None))) YEAR TERM' MVP_SCHOOL MVP_SUBJECT
     = Inl (HTTPError 503)"
  by (simp add: fetch_courses_request get_json_def example_world_def courses_url_not_terms)

lemma example_world_courses_ok:
  "fetch_courses (net (example_world terms (Reply 200 (Some raw)))) YEAR TERM' MVP_SCHOOL
     MVP_SUBJECT = Inr raw"
  by (simp add: fetch_courses_request get_json_def example_world_def courses_url_not_terms)

lemma example_world_terms:
  "get_json (net (example_world NoAnswer courses)) TERMS_ENDPOINT None = Inl Timeout"
  by (simp add: get_json_def example_world_def)

subsection \<open>The examples\<close>

lemma transform_sparse_courses:
  "transform_to_quacs_schema py (PList sparse_courses) = Inr sparse_document"
  by (simp add: sparse_courses_def sparse_document_def body_defs eval_defs)

lemma transform_staffed_courses:
  "transform_to_quacs_schema py (PList staffed_courses) = Inr staffed_document"
  by (simp add: staffed_courses_def staffed_document_def example_instructors_def body_defs
      eval_defs)

lemma transform_three_courses:
  "transform_to_quacs_schema py (PList three_courses) = Inr three_courses_document"
  by (simp add: three_courses_def three_courses_document_def body_defs eval_defs)

section \<open>Malformed input\<close>

text \<open>
  C1 as stated fails: a \<^verbatim>\<open>sections\<close> value that is a number makes the loop over
  it raise \<^verbatim>\<open>TypeError\<close>, a list with an element that is not a mapping makes
  \<^verbatim>\<open>.get\<close> raise \<^verbatim>\<open>AttributeError\<close>, and so does a course that is not a
  mapping.
\<close>

theorem malformed_sections_raise:
  "transform_to_quacs_schema example_interpreter (PList [PDict [(u ''sections'', PInt 5)]])
     = Inl TypeError
   \<and> transform_to_quacs_schema example_interpreter
        (PList [PDict [(u ''sections'', PList [PInt 5])]])
     = Inl AttributeError
   \<and> transform_to_quacs_schema example_interpreter (PList [PStr (u ''CS 101'')])
     = Inl AttributeError"
  by (simp add: transform_to_quacs_schema_def course_body_def section_body_def dict_get_def
      Let_def u_eq_iff)

text \<open>
  C1, amended: the transform returns, without raising, exactly for the lists of raw
  courses of the expected shape: each course a mapping whose subject and number
  \<^verbatim>\<open>str()\<close> can format; each \<^verbatim>\<open>sections\<close>, \<^verbatim>\<open>instructors\<close> and
  \<^verbatim>\<open>meetings\<close> value, where present, a list of mappings, or an empty string or an
  empty mapping; each instructor with a truthy name, or with a first and a last name
  that \<^verbatim>\<open>str()\<close> can format. What it returns then is a document of the output
  schema with one output course for each raw course, in order. A nested collection that
  is absent is treated as an empty list, and so is one that is an empty list, an empty
  string or an empty mapping. For every other list the transform raises; a course
  whose number is an integer with more digits than the interpreter's limit raises
  \<^verbatim>\<open>ValueError\<close>. The list of two sparse courses gives its document.
\<close>

theorem transform_total_on_expected_shape:
  "((\<exists>doc. transform_to_quacs_schema py (PList cs) = Inr doc)
      \<longleftrightarrow> list_all (course_shape py) cs)
   \<and> (transform_to_quacs_schema py (PList cs) = Inr out \<longrightarrow>
        document_ok out
        \<and> list_all2 (\<lambda>c oc. course_body py c = Inr oc) cs (items ''courses'' out))
   \<and> (absent_or_empty d ''sections'' \<longrightarrow>
        course_body py (PDict d) = course_body py (PDict ((u ''sections'', PList []) # d)))
   \<and> (absent_or_empty d ''instructors'' \<longrightarrow>
        section_body py (PDict d) = section_body py (PDict ((u ''instructors'', PList []) # d)))
   \<and> (absent_or_empty d ''meetings'' \<longrightarrow>
        section_body py (PDict d) = section_body py (PDict ((u ''meetings'', PList []) # d)))
   \<and> (640 \<le> int_max_str_digits py \<and> int_max_str_digits py < length (digits (nat \<bar>n\<bar>))
        \<longrightarrow> transform_to_quacs_schema py (PList [PDict [(u ''courseNumber'', PInt n)]])
              = Inl ValueError)
   \<and> transform_to_quacs_schema py (PList sparse_courses) = Inr sparse_document"
proof (intro conjI impI)
  show "(\<exists>doc. transform_to_quacs_schema py (PList cs) = Inr doc)
      \<longleftrightarrow> list_all (course_shape py) cs"
    by (rule transform_total)
next
  assume t: "transform_to_quacs_schema py (PList cs) = Inr out"
  then show "document_ok out" by (rule transform_Inr)
  from t show "list_all2 (\<lambda>c oc. course_body py c = Inr oc) cs (items ''courses'' out)"
    by (rule transform_rows)
next
  assume "absent_or_empty d ''sections''"
  from absent_or_empty_iter [OF this]
  show "course_body py (PDict d) = course_body py (PDict ((u ''sections'', PList []) # d))"
    by (simp add: course_body_def dict_get_Cons u_eq_iff Let_def cong: sum.case_cong)
next
  assume "absent_or_empty d ''instructors''"
  from absent_or_empty_iter [OF this]
  show "section_body py (PDict d) =
      section_body py (PDict ((u ''instructors'', PList []) # d))"
    by (simp add: section_body_def dict_get_Cons u_eq_iff Let_def cong: sum.case_cong)
next
  assume "absent_or_empty d ''meetings''"
  from absent_or_empty_iter [OF this]
  show "section_body py (PDict d) =
      section_body py (PDict ((u ''meetings'', PList []) # d))"
    by (simp add: section_body_def dict_get_Cons u_eq_iff Let_def cong: sum.case_cong)
next
  assume a: "640 \<le> int_max_str_digits py
      \<and> int_max_str_digits py < length (digits (nat \<bar>n\<bar>))"
  then have "str_int py n = Inl ValueError" by (simp add: str_int_beyond_limit)
  moreover from a have "n \<noteq> 0" by (intro many_digits_nonzero) simp
  ultimately
  show "transform_to_quacs_schema py (PList [PDict [(u ''courseNumber'', PInt n)]])
        = Inl ValueError"
    by (simp add: transform_to_quacs_schema_def course_body_def format_spaced_def dict_get_def
        py_or_def u_eq_iff Let_def)
next
  show "transform_to_quacs_schema py (PList sparse_courses) = Inr sparse_document"
    by (simp add: sparse_courses_def sparse_document_def body_defs eval_defs)
qed

theorem transform_total_on_expected_shape_witness:
  "list_all (course_shape example_interpreter)
     [PDict [(u ''sections'',
        PList [PDict [(u ''instructors'', PList [PDict []]), (u ''meetings'', PStr [])]])],
      PDict [(u ''courseNumber'', PInt 101)]]
   \<and> (\<exists>out. transform_to_quacs_schema example_interpreter
          (PList [PDict [(u ''sections'',
             PList [PDict [(u ''instructors'', PList [PDict []]), (u ''meetings'', PStr [])]])],
           PDict [(u ''courseNumber'', PInt 101)]]) = Inr out
        \<and> document_ok out
        \<and> list_all2 (\<lambda>c oc. course_body example_interpreter c = Inr oc)
            [PDict [(u ''sections'',
               PList [PDict [(u ''instructors'', PList [PDict []]), (u ''meetings'', PStr [])]])],
             PDict [(u ''courseNumber'', PInt 101)]]
            (items ''courses'' out))
   \<and> absent_or_empty [(u ''sections'', PStr [])] ''sections''
   \<and> course_body example_interpreter (PDict [(u ''sections'', PStr [])]) =
       course_body example_interpreter
         (PDict [(u ''sections'', PList []), (u ''sections'', PStr [])])
   \<and> absent_or_empty [] ''instructors''
   \<and> section_body example_interpreter (PDict []) =
       section_body example_interpreter (PDict [(u ''instructors'', PList [])])
   \<and> absent_or_empty [(u ''meetings'', PDict [])] ''meetings''
   \<and> section_body example_interpreter (PDict [(u ''meetings'', PDict [])]) =
       section_body example_interpreter
         (PDict [(u ''meetings'', PList []), (u ''meetings'', PDict [])])
   \<and> 640 \<le> int_max_str_digits example_interpreter
   \<and> int_max_str_digits example_interpreter
       < length (digits (nat \<bar>10 ^ int_max_str_digits example_interpreter\<bar>))
   \<and> transform_to_quacs_schema example_interpreter
        (PList [PDict [(u ''courseNumber'',
           PInt (10 ^ int_max_str_digits example_interpreter))]])
       = Inl ValueError"
proof -
  define cs where "cs =
     [PDict [(u ''sections'',
        PList [PDict [(u ''instructors'', PList [PDict []]), (u ''meetings'', PStr [])]])],
      PDict [(u ''courseNumber'', PInt 101)]]"
  have n: "formats example_interpreter (PInt 101)"
    by (simp add: formats_def str_int_def digits.simps Let_def)
  have shape: "list_all (course_shape example_interpreter) cs"
    by (simp add: cs_def course_shape_def section_shape_def instructor_shape_def
        collection_of_def elements_def formats_str dict_get_def py_or_def u_eq_iff n)
  have a1: "absent_or_empty [(u ''sections'', PStr [])] ''sections''"
    by (simp add: absent_or_empty_def)
  have a2: "absent_or_empty [] ''instructors''"
    by (simp add: absent_or_empty_def)
  have a3: "absent_or_empty [(u ''meetings'', PDict [])] ''meetings''"
    by (simp add: absent_or_empty_def)
  have l: "640 \<le> int_max_str_digits example_interpreter"
    by (simp add: example_interpreter_def)
  note t = transform_total_on_expected_shape [of example_interpreter cs]
  from t shape obtain out
    where out: "transform_to_quacs_schema example_interpreter (PList cs) = Inr out"
    by blast
  with t [of out] have ok: "document_ok out"
    and rows: "list_all2 (\<lambda>c oc. course_body example_interpreter c = Inr oc) cs
                 (items ''courses'' out)"
    by blast+
  from transform_total_on_expected_shape
         [of example_interpreter cs out "[(u ''sections'', PStr [])]"] a1
  have 1: "course_body example_interpreter (PDict [(u ''sections'', PStr [])]) =
       course_body example_interpreter
         (PDict [(u ''sections'', PList []), (u ''sections'', PStr [])])"
    by blast
  from transform_total_on_expected_shape [of example_interpreter cs out "[]"] a2
  have 2: "section_body example_interpreter (PDict []) =
       section_body example_interpreter (PDict [(u ''instructors'', PList [])])"
    by blast
  from transform_total_on_expected_shape
         [of example_interpreter cs out "[(u ''meetings'', PDict [])]"] a3
  have 3: "section_body example_interpreter (PDict [(u ''meetings'', PDict [])]) =
       section_body example_interpreter
         (PDict [(u ''meetings'', PList []), (u ''meetings'', PDict [])])"
    by blast
  note g = digits_power_beyond_limit [of example_interpreter]
  from t [of out _ "10 ^ int_max_str_digits example_interpreter"] l g
  have 4: "transform_to_quacs_schema example_interpreter
        (PList [PDict [(u ''courseNumber'',
           PInt (10 ^ int_max_str_digits example_interpreter))]])
       = Inl ValueError"
    by blast
  from shape out ok rows a1 1 a2 2 a3 3 l g 4 show ?thesis
    unfolding cs_def by blast
qed

section \<open>Defaults\<close>

text \<open>
  C2: a raw course that has none of the optional fields gives an output course with
  subject \<^verbatim>\<open>""\<close>, number \<^verbatim>\<open>""\<close>, title \<^verbatim>\<open>""\<close>, credits \<^verbatim>\<open>0\<close> and
  sections \<^verbatim>\<open>[]\<close> (and id \<^verbatim>\<open>""\<close>). In a document that the transform returns,
  the output courses are the outputs of the raw courses, one for one and in order, and
  the output of each raw course without optional fields is that default course; for a
  list of such courses the transform returns as many default courses. A list of a
  course with a subject and two courses without optional fields gives three courses,
  the last two of them the default course.
\<close>

theorem course_defaults:
  "(lacks d [''subjectCode'', ''subject'', ''courseNumber'', ''code'', ''catalogNumber'',
             ''name'', ''title'', ''credits'', ''minCredits'', ''sections'']
      \<longrightarrow> course_body py (PDict d) =
            Inr (PDict [(u ''id'', PStr []), (u ''subject'', PStr []), (u ''number'', PStr []),
                        (u ''title'', PStr []), (u ''credits'', PInt 0),
                        (u ''sections'', PList [])]))
   \<and> (transform_to_quacs_schema py (PList cs) = Inr doc \<longrightarrow>
        doc = PDict [(u ''courses'', PList (items ''courses'' doc))]
        \<and> list_all2 (\<lambda>c oc. course_body py c = Inr oc \<and> (bare c \<longrightarrow> oc = default_course))
            cs (items ''courses'' doc))
   \<and> (list_all bare cs \<longrightarrow>
        transform_to_quacs_schema py (PList cs) =
          Inr (PDict [(u ''courses'', PList (replicate (length cs) default_course))]))
   \<and> transform_to_quacs_schema py
        (PList [PDict [(u ''subject'', PStr (u ''CS''))], PDict [],
                PDict [(u ''department'', PStr (u ''Tandon''))]])
       = Inr (PDict [(u ''courses'', PList
           [PDict [(u ''id'', PStr (u ''CS'')), (u ''subject'', PStr (u ''CS'')),
                   (u ''number'', PStr []), (u ''title'', PStr []), (u ''credits'', PInt 0),
                   (u ''sections'', PList [])],
            PDict [(u ''id'', PStr []), (u ''subject'', PStr []), (u ''number'', PStr []),
                   (u ''title'', PStr []), (u ''credits'', PInt 0), (u ''sections'', PList [])],
            PDict [(u ''id'', PStr []), (u ''subject'', PStr []), (u ''number'', PStr []),
                   (u ''title'', PStr []), (u ''credits'', PInt 0),
                   (u ''sections'', PList [])]])])"
proof (intro conjI impI)
  assume "lacks d [''subjectCode'', ''subject'', ''courseNumber'', ''code'', ''catalogNumber'',
             ''name'', ''title'', ''credits'', ''minCredits'', ''sections'']"
  then show "course_body py (PDict d) =
            Inr (PDict [(u ''id'', PStr []), (u ''subject'', PStr []), (u ''number'', PStr []),
                        (u ''title'', PStr []), (u ''credits'', PInt 0),
                        (u ''sections'', PList [])])"
    by (rule bare_course_body)
next
  assume t: "transform_to_quacs_schema py (PList cs) = Inr doc"
  then show "doc = PDict [(u ''courses'', PList (items ''courses'' doc))]"
    by (rule transform_rows)
  from transform_rows(2) [OF t]
  show "list_all2 (\<lambda>c oc. course_body py c = Inr oc \<and> (bare c \<longrightarrow> oc = default_course))
          cs (items ''courses'' doc)"
    by (rule list_all2_mono) (auto simp: bare_body)
next
  assume "list_all bare cs"
  from courses_loop_bare [OF this, of py "[]"]
  show "transform_to_quacs_schema py (PList cs) =
          Inr (PDict [(u ''courses'', PList (replicate (length cs) default_course))])"
    by (simp add: transform_to_quacs_schema_def)
next
  show "transform_to_quacs_schema py
        (PList [PDict [(u ''subject'', PStr (u ''CS''))], PDict [],
                PDict [(u ''department'', PStr (u ''Tandon''))]])
       = Inr (PDict [(u ''courses'', PList
           [PDict [(u ''id'', PStr (u ''CS'')), (u ''subject'', PStr (u ''CS'')),
                   (u ''number'', PStr []), (u ''title'', PStr []), (u ''credits'', PInt 0),
                   (u ''sections'', PList [])],
            PDict [(u ''id'', PStr []), (u ''subject'', PStr []), (u ''number'', PStr []),
                   (u ''title'', PStr []), (u ''credits'', PInt 0), (u ''sections'', PList [])],
            PDict [(u ''id'', PStr []), (u ''subject'', PStr []), (u ''number'', PStr []),
                   (u ''title'', PStr []), (u ''credits'', PInt 0),
                   (u ''sections'', PList [])]])])"
    by (simp add: body_defs eval_defs)
qed

theorem course_defaults_witness:
  "lacks [(u ''department'', PStr (u ''Tandon''))]
      [''subjectCode'', ''subject'', ''courseNumber'', ''code'', ''catalogNumber'',
       ''name'', ''title'', ''credits'', ''minCredits'', ''sections'']
   \<and> course_body example_interpreter (PDict [(u ''department'', PStr (u ''Tandon''))]) =
       Inr (PDict [(u ''id'', PStr []), (u ''subject'', PStr []), (u ''number'', PStr []),
                   (u ''title'', PStr []), (u ''credits'', PInt 0),
                   (u ''sections'', PList [])])
   \<and> transform_to_quacs_schema example_interpreter
        (PList [PDict [(u ''subject'', PStr (u ''CS''))], PDict [],
                PDict [(u ''department'', PStr (u ''Tandon''))]])
       = Inr (PDict [(u ''courses'', PList
           [PDict [(u ''id'', PStr (u ''CS'')), (u ''subject'', PStr (u ''CS'')),
                   (u ''number'', PStr []), (u ''title'', PStr []), (u ''credits'', PInt 0),
                   (u ''sections'', PList [])],
            default_course, default_course])])
   \<and> list_all2 (\<lambda>c oc. course_body example_interpreter c = Inr oc
                   \<and> (bare c \<longrightarrow> oc = default_course))
        [PDict [(u ''subject'', PStr (u ''CS''))], PDict [],
         PDict [(u ''department'', PStr (u ''Tandon''))]]
        [PDict [(u ''id'', PStr (u ''CS'')), (u ''subject'', PStr (u ''CS'')),
                (u ''number'', PStr []), (u ''title'', PStr []), (u ''credits'', PInt 0),
                (u ''sections'', PList [])],
         default_course, default_course]
   \<and> list_all bare [PDict [], PDict [(u ''department'', PStr (u ''Tandon''))]]
   \<and> transform_to_quacs_schema example_interpreter
        (PList [PDict [], PDict [(u ''department'', PStr (u ''Tandon''))]])
       = Inr (PDict [(u ''courses'', PList [default_course, default_course])])"
proof -
  have h1: "lacks [(u ''department'', PStr (u ''Tandon''))]
      [''subjectCode'', ''subject'', ''courseNumber'', ''code'', ''catalogNumber'',
       ''name'', ''title'', ''credits'', ''minCredits'', ''sections'']"
    by (simp add: lacks_def u_eq_iff)
  have t: "transform_to_quacs_schema example_interpreter
        (PList [PDict [(u ''subject'', PStr (u ''CS''))], PDict [],
                PDict [(u ''department'', PStr (u ''Tandon''))]])
       = Inr (PDict [(u ''courses'', PList
           [PDict [(u ''id'', PStr (u ''CS'')), (u ''subject'', PStr (u ''CS'')),
                   (u ''number'', PStr []), (u ''title'', PStr []), (u ''credits'', PInt 0),
                   (u ''sections'', PList [])],
            default_course, default_course])])"
    by (simp add: default_course_def body_defs eval_defs)
  have i: "items ''courses'' (PDict [(u ''courses'', PList xs)]) = xs" for xs
    by (simp add: items_def field_def dict_get_def)
  have b: "list_all bare [PDict [], PDict [(u ''department'', PStr (u ''Tandon''))]]"
    by (simp add: bare_def lacks_def u_eq_iff)
  note c = course_defaults [of "[(u ''department'', PStr (u ''Tandon''))]" example_interpreter]
  from c h1 have 1: "course_body example_interpreter
       (PDict [(u ''department'', PStr (u ''Tandon''))]) =
       Inr (PDict [(u ''id'', PStr []), (u ''subject'', PStr []), (u ''number'', PStr []),
                   (u ''title'', PStr []), (u ''credits'', PInt 0),
                   (u ''sections'', PList [])])"
    by blast
  from c [of "[PDict [(u ''subject'', PStr (u ''CS''))], PDict [],
               PDict [(u ''department'', PStr (u ''Tandon''))]]"] t
  have 2: "list_all2 (\<lambda>c oc. course_body example_interpreter c = Inr oc
                   \<and> (bare c \<longrightarrow> oc = default_course))
        [PDict [(u ''subject'', PStr (u ''CS''))], PDict [],
         PDict [(u ''department'', PStr (u ''Tandon''))]]
        (items ''courses'' (PDict [(u ''courses'', PList
           [PDict [(u ''id'', PStr (u ''CS'')), (u ''subject'', PStr (u ''CS'')),
                   (u ''number'', PStr []), (u ''title'', PStr []), (u ''credits'', PInt 0),
                   (u ''sections'', PList [])],
            default_course, default_course])]))"
    by blast
  from c [of "[PDict [], PDict [(u ''department'', PStr (u ''Tandon''))]]"] b
  have 3: "transform_to_quacs_schema example_interpreter
        (PList [PDict [], PDict [(u ''department'', PStr (u ''Tandon''))]])
       = Inr (PDict [(u ''courses'', PList [default_course, default_course])])"
    by (simp add: numeral_2_eq_2)
  from h1 1 t 2 b 3 show ?thesis unfolding i by blast
qed

section \<open>The keys of the output\<close>

text \<open>
  C3: whatever keys a raw meeting has, its output meeting has the seven keys days,
  start, end, campus, building, room and modality. Every document the transform returns
  has every key of the output schema at every level, and its records are the outputs of
  the raw records, one for one and in order: a course for each raw course, in it a
  section for each raw section, in that a meeting with the seven keys for each raw
  meeting. Each field of an output meeting, section or course has its default (empty
  string, empty list, zero or null) when the upstream keys of that field are absent,
  whatever other keys are present. The list of two sparse courses gives its document,
  with every key at every level.
\<close>

theorem output_keys_always_present:
  "(\<exists>om. meeting_body (PDict d) = Inr om \<and> meeting_ok om)
   \<and> (transform_to_quacs_schema py raw = Inr out \<longrightarrow> document_ok out)
   \<and> (transform_to_quacs_schema py (PList cs) = Inr out \<longrightarrow>
        list_all2
          (\<lambda>c oc. course_body py c = Inr oc
             \<and> list_all2
                 (\<lambda>s os. section_body py s = Inr os
                    \<and> list_all2 (\<lambda>m om. meeting_body m = Inr om \<and> meeting_ok om)
                        (visited ''meetings'' s) (items ''meetings'' os))
                 (visited ''sections'' c) (items ''sections'' oc))
          cs (items ''courses'' out))
   \<and> (meeting_body (PDict d) = Inr om' \<and> (f, ks, dflt) \<in> set meeting_defaults \<and> lacks d ks
        \<longrightarrow> field f om' = dflt)
   \<and> (section_body py (PDict d) = Inr os \<and> (f, ks, dflt) \<in> set section_defaults \<and> lacks d ks
        \<longrightarrow> field f os = dflt)
   \<and> (course_body py (PDict d) = Inr oc \<and> (f, ks, dflt) \<in> set course_field_defaults
        \<and> lacks d ks
        \<longrightarrow> field f oc = dflt)
   \<and> transform_to_quacs_schema py (PList sparse_courses) = Inr sparse_document"
proof (intro conjI impI)
  show "\<exists>om. meeting_body (PDict d) = Inr om \<and> meeting_ok om"
    by (rule meeting_body_dict)
next
  assume "transform_to_quacs_schema py raw = Inr out"
  then show "document_ok out" by (rule transform_Inr)
next
  assume "transform_to_quacs_schema py (PList cs) = Inr out"
  then show "list_all2
          (\<lambda>c oc. course_body py c = Inr oc
             \<and> list_all2
                 (\<lambda>s os. section_body py s = Inr os
                    \<and> list_all2 (\<lambda>m om. meeting_body m = Inr om \<and> meeting_ok om)
                        (visited ''meetings'' s) (items ''meetings'' os))
                 (visited ''sections'' c) (items ''sections'' oc))
          cs (items ''courses'' out)"
    by (rule transform_meetings)
next
  assume "meeting_body (PDict d) = Inr om' \<and> (f, ks, dflt) \<in> set meeting_defaults \<and> lacks d ks"
  then show "field f om' = dflt" by (blast intro: meeting_default_fields)
next
  assume "section_body py (PDict d) = Inr os \<and> (f, ks, dflt) \<in> set section_defaults
      \<and> lacks d ks"
  then show "field f os = dflt" by (blast intro: section_default_fields)
next
  assume "course_body py (PDict d) = Inr oc \<and> (f, ks, dflt) \<in> set course_field_defaults
      \<and> lacks d ks"
  then show "field f oc = dflt" by (blast intro: course_default_fields)
next
  show "transform_to_quacs_schema py (PList sparse_courses) = Inr sparse_document"
    by (simp add: sparse_courses_def sparse_document_def body_defs eval_defs)
qed

theorem output_keys_always_present_witness:
  "transform_to_quacs_schema example_interpreter (PList sparse_courses) = Inr sparse_document
   \<and> document_ok sparse_document
   \<and> list_all2
        (\<lambda>c oc. course_body example_interpreter c = Inr oc
           \<and> list_all2
               (\<lambda>s os. section_body example_interpreter s = Inr os
                  \<and> list_all2 (\<lambda>m om. meeting_body m = Inr om \<and> meeting_ok om)
                      (visited ''meetings'' s) (items ''meetings'' os))
               (visited ''sections'' c) (items ''sections'' oc))
        sparse_courses (items ''courses'' sparse_document)
   \<and> (''campus'', [''campus'', ''campusName''], PNone) \<in> set meeting_defaults
   \<and> lacks [(u ''room'', PStr (u ''101''))] [''campus'', ''campusName'']
   \<and> (\<exists>om. meeting_body (PDict [(u ''room'', PStr (u ''101''))]) = Inr om
         \<and> meeting_ok om \<and> field ''campus'' om = PNone)
   \<and> (''instructors'', [''instructors''], PList []) \<in> set section_defaults
   \<and> lacks [(u ''code'', PStr (u ''B''))] [''instructors'']
   \<and> (\<exists>os. section_body example_interpreter (PDict [(u ''code'', PStr (u ''B''))]) = Inr os
         \<and> field ''instructors'' os = PList [])
   \<and> (''credits'', [''credits'', ''minCredits''], PInt 0) \<in> set course_field_defaults
   \<and> lacks [(u ''title'', PStr (u ''Algorithms''))] [''credits'', ''minCredits'']
   \<and> (\<exists>oc. course_body example_interpreter (PDict [(u ''title'', PStr (u ''Algorithms''))])
           = Inr oc
         \<and> field ''credits'' oc = PInt 0)"
proof -
  note t = transform_sparse_courses [of example_interpreter]
  note k = output_keys_always_present
    [where py = example_interpreter and raw = "PList sparse_courses" and cs = sparse_courses
       and out = sparse_document]
  from k t have 1: "document_ok sparse_document" by blast
  from k t have 2: "list_all2
        (\<lambda>c oc. course_body example_interpreter c = Inr oc
           \<and> list_all2
               (\<lambda>s os. section_body example_interpreter s = Inr os
                  \<and> list_all2 (\<lambda>m om. meeting_body m = Inr om \<and> meeting_ok om)
                      (visited ''meetings'' s) (items ''meetings'' os))
               (visited ''sections'' c) (items ''sections'' oc))
        sparse_courses (items ''courses'' sparse_document)"
    by blast
  have m1: "(''campus'', [''campus'', ''campusName''], PNone) \<in> set meeting_defaults"
    by (simp add: meeting_defaults_def)
  have m2: "lacks [(u ''room'', PStr (u ''101''))] [''campus'', ''campusName'']"
    by (simp add: lacks_def u_eq_iff)
  from k [where d = "[(u ''room'', PStr (u ''101''))]"]
  obtain om where om: "meeting_body (PDict [(u ''room'', PStr (u ''101''))]) = Inr om"
    and ok: "meeting_ok om"
    by blast
  from k [where d = "[(u ''room'', PStr (u ''101''))]" and om' = om and f = "''campus''"
            and ks = "[''campus'', ''campusName'']" and dflt = PNone] om m1 m2
  have "field ''campus'' om = PNone" by blast
  with om ok have 3: "\<exists>om. meeting_body (PDict [(u ''room'', PStr (u ''101''))]) = Inr om
         \<and> meeting_ok om \<and> field ''campus'' om = PNone"
    by blast
  have s1: "(''instructors'', [''instructors''], PList []) \<in> set section_defaults"
    by (simp add: section_defaults_def)
  have s2: "lacks [(u ''code'', PStr (u ''B''))] [''instructors'']"
    by (simp add: lacks_def u_eq_iff)
  have "section_shape example_interpreter (PDict [(u ''code'', PStr (u ''B''))])"
    by (simp add: section_shape_def collection_of_def elements_def dict_get_def u_eq_iff)
  then obtain os
    where os: "section_body example_interpreter (PDict [(u ''code'', PStr (u ''B''))]) = Inr os"
    using section_body_total by blast
  from k [where d = "[(u ''code'', PStr (u ''B''))]" and os = os and f = "''instructors''"
            and ks = "[''instructors'']" and dflt = "PList []"] os s1 s2
  have "field ''instructors'' os = PList []" by blast
  with os have 4: "\<exists>os. section_body example_interpreter (PDict [(u ''code'', PStr (u ''B''))])
           = Inr os \<and> field ''instructors'' os = PList []"
    by blast
  have c1: "(''credits'', [''credits'', ''minCredits''], PInt 0) \<in> set course_field_defaults"
    by (simp add: course_field_defaults_def)
  have c2: "lacks [(u ''title'', PStr (u ''Algorithms''))] [''credits'', ''minCredits'']"
    by (simp add: lacks_def u_eq_iff)
  have "course_shape example_interpreter (PDict [(u ''title'', PStr (u ''Algorithms''))])"
    by (simp add: course_shape_def collection_of_def elements_def dict_get_def u_eq_iff
        formats_str)
  then obtain oc
    where oc: "course_body example_interpreter (PDict [(u ''title'', PStr (u ''Algorithms''))])
        = Inr oc"
    using course_body_total by blast
  from k [where d = "[(u ''title'', PStr (u ''Algorithms''))]" and oc = oc and f = "''credits''"
            and ks = "[''credits'', ''minCredits'']" and dflt = "PInt 0"] oc c1 c2
  have "field ''credits'' oc = PInt 0" by blast
  with oc have 5: "\<exists>oc. course_body example_interpreter
        (PDict [(u ''title'', PStr (u ''Algorithms''))]) = Inr oc
         \<and> field ''credits'' oc = PInt 0"
    by blast
  from t 1 2 m1 m2 3 s1 s2 4 c1 c2 5 show ?thesis by blast
qed

section \<open>Instructor names\<close>

text \<open>
  C4 as stated fails where a \<^verbatim>\<open>name\<close> field exists but is empty: the rule of
  the specification takes the field verbatim and so omits the instructor, the code
  falls through to the first and the last name.
\<close>

theorem empty_name_falls_through:
  "instructors_loop example_interpreter
     [PDict [(u ''name'', PStr []), (u ''firstName'', PStr (u ''A.'')),
             (u ''lastName'', PStr (u ''Smith''))]] []
     = Inr [PStr (u ''A. Smith'')]
   \<and> specified_instructor example_interpreter
        [(u ''name'', PStr []), (u ''firstName'', PStr (u ''A.'')),
         (u ''lastName'', PStr (u ''Smith''))] = Inr []"
  by (simp add: instructor_body_def instructor_name_def format_spaced_def
      specified_instructor_def eval_defs)

text \<open>
  C4, amended: a \<^verbatim>\<open>name\<close> field that is truthy is used verbatim; otherwise
  (absent or falsy) the name is the text of the first and of the last name, each
  \<^verbatim>\<open>""\<close> when absent, joined by one space and trimmed, and the transform raises
  when \<^verbatim>\<open>str()\<close> cannot format one of the two. The instructors of an output
  section are the names of the raw instructors, in order, without those whose name is
  the empty string; this holds for every section of every course of a document that the
  transform returns. The three examples of the specification hold, and the list of the
  four example instructors gives three names.
\<close>

theorem instructor_name_rule:
  "(truthy (get d ''name'') \<longrightarrow> instructor_name py (PDict d) = Inr (get d ''name''))
   \<and> (\<not> truthy (get d ''name'')
        \<and> py_str py (dict_get d (u ''firstName'') (PStr [])) = Inr a
        \<and> py_str py (dict_get d (u ''lastName'') (PStr [])) = Inr b
      \<longrightarrow> instructor_name py (PDict d) = Inr (PStr (py_strip (a @ u '' '' @ b))))
   \<and> (\<not> truthy (get d ''name'')
        \<and> \<not> (formats py (dict_get d (u ''firstName'') (PStr []))
               \<and> formats py (dict_get d (u ''lastName'') (PStr [])))
      \<longrightarrow> (\<exists>e. instructor_name py (PDict d) = Inl e))
   \<and> (instructors_loop py xs [] = Inr r \<longleftrightarrow>
        (\<exists>ns. list_all2 (\<lambda>i n. instructor_name py i = Inr n) xs ns
           \<and> r = filter (\<lambda>n. n \<noteq> PStr []) ns))
   \<and> (transform_to_quacs_schema py (PList cs) = Inr doc \<longrightarrow>
        list_all2
          (\<lambda>c oc. list_all2
             (\<lambda>s os. \<exists>r. instructors_loop py (visited ''instructors'' s) [] = Inr r
                       \<and> field ''instructors'' os = PList r)
             (visited ''sections'' c) (items ''sections'' oc))
          cs (items ''courses'' doc))
   \<and> instructors_loop py [PDict [(u ''name'', PStr (u ''A. Smith''))]] []
       = Inr [PStr (u ''A. Smith'')]
   \<and> instructors_loop py [PDict [(u ''firstName'', PStr (u ''A.'')),
                                 (u ''lastName'', PStr (u ''Smith''))]] []
       = Inr [PStr (u ''A. Smith'')]
   \<and> instructors_loop py [PDict [(u ''firstName'', PStr []), (u ''lastName'', PStr [])]] []
       = Inr []
   \<and> instructors_loop py example_instructors []
       = Inr [PStr (u ''A. Smith''), PStr (u ''B. Jones''), PStr (u ''Doe'')]"
proof (intro conjI impI)
  assume "truthy (get d ''name'')"
  then show "instructor_name py (PDict d) = Inr (get d ''name'')"
    by (simp add: instructor_name_def)
next
  assume "\<not> truthy (get d ''name'')
        \<and> py_str py (dict_get d (u ''firstName'') (PStr [])) = Inr a
        \<and> py_str py (dict_get d (u ''lastName'') (PStr [])) = Inr b"
  then show "instructor_name py (PDict d) = Inr (PStr (py_strip (a @ u '' '' @ b)))"
    by (simp add: instructor_name_def format_spaced_def)
next
  assume a: "\<not> truthy (get d ''name'')
        \<and> \<not> (formats py (dict_get d (u ''firstName'') (PStr []))
               \<and> formats py (dict_get d (u ''lastName'') (PStr [])))"
  then have "\<not> instructor_shape py (PDict d)" by (simp add: instructor_shape_def)
  then have "\<not> (\<exists>n. instructor_name py (PDict d) = Inr n)"
    by (simp add: instructor_name_total)
  then show "\<exists>e. instructor_name py (PDict d) = Inl e"
    by (cases "instructor_name py (PDict d)") auto
next
  show "instructors_loop py xs [] = Inr r \<longleftrightarrow>
        (\<exists>ns. list_all2 (\<lambda>i n. instructor_name py i = Inr n) xs ns
           \<and> r = filter (\<lambda>n. n \<noteq> PStr []) ns)"
    using instructor_names_filter [of py xs] by (auto simp: instructors_loop_iff)
next
  assume "transform_to_quacs_schema py (PList cs) = Inr doc"
  then show "list_all2
          (\<lambda>c oc. list_all2
             (\<lambda>s os. \<exists>r. instructors_loop py (visited ''instructors'' s) [] = Inr r
                       \<and> field ''instructors'' os = PList r)
             (visited ''sections'' c) (items ''sections'' oc))
          cs (items ''courses'' doc)"
    by (rule transform_instructors)
next
  show "instructors_loop py [PDict [(u ''name'', PStr (u ''A. Smith''))]] []
       = Inr [PStr (u ''A. Smith'')]"
    by (simp add: instructor_body_def instructor_name_def eval_defs)
next
  show "instructors_loop py [PDict [(u ''firstName'', PStr (u ''A.'')),
                                 (u ''lastName'', PStr (u ''Smith''))]] []
       = Inr [PStr (u ''A. Smith'')]"
    by (simp add: instructor_body_def instructor_name_def format_spaced_def eval_defs)
next
  show "instructors_loop py [PDict [(u ''firstName'', PStr []), (u ''lastName'', PStr [])]] []
       = Inr []"
    by (simp add: instructor_body_def instructor_name_def format_spaced_def eval_defs)
next
  show "instructors_loop py example_instructors []
       = Inr [PStr (u ''A. Smith''), PStr (u ''B. Jones''), PStr (u ''Doe'')]"
    by (simp add: example_instructors_def instructor_body_def instructor_name_def
        format_spaced_def eval_defs)
qed

theorem instructor_name_rule_witness:
  "truthy (get [(u ''name'', PStr (u ''A. Smith''))] ''name'')
   \<and> instructor_name example_interpreter (PDict [(u ''name'', PStr (u ''A. Smith''))])
       = Inr (PStr (u ''A. Smith''))
   \<and> \<not> truthy (get [(u ''lastName'', PStr (u ''Doe''))] ''name'')
   \<and> py_str example_interpreter
        (dict_get [(u ''lastName'', PStr (u ''Doe''))] (u ''firstName'') (PStr [])) = Inr []
   \<and> py_str example_interpreter
        (dict_get [(u ''lastName'', PStr (u ''Doe''))] (u ''lastName'') (PStr []))
       = Inr (u ''Doe'')
   \<and> instructor_name example_interpreter (PDict [(u ''lastName'', PStr (u ''Doe''))])
       = Inr (PStr (py_strip ([] @ u '' '' @ u ''Doe'')))
   \<and> \<not> formats example_interpreter
        (dict_get [(u ''firstName'', PInt (10 ^ int_max_str_digits example_interpreter))]
           (u ''firstName'') (PStr []))
   \<and> (\<exists>e. instructor_name example_interpreter
          (PDict [(u ''firstName'', PInt (10 ^ int_max_str_digits example_interpreter))])
        = Inl e)
   \<and> instructors_loop example_interpreter example_instructors []
       = Inr [PStr (u ''A. Smith''), PStr (u ''B. Jones''), PStr (u ''Doe'')]
   \<and> (\<exists>ns. list_all2 (\<lambda>i n. instructor_name example_interpreter i = Inr n)
              example_instructors ns
         \<and> [PStr (u ''A. Smith''), PStr (u ''B. Jones''), PStr (u ''Doe'')]
             = filter (\<lambda>n. n \<noteq> PStr []) ns)
   \<and> transform_to_quacs_schema example_interpreter (PList staffed_courses)
       = Inr staffed_document
   \<and> list_all2
        (\<lambda>c oc. list_all2
           (\<lambda>s os. \<exists>r. instructors_loop example_interpreter (visited ''instructors'' s) []
                       = Inr r
                     \<and> field ''instructors'' os = PList r)
           (visited ''sections'' c) (items ''sections'' oc))
        staffed_courses (items ''courses'' staffed_document)"
proof -
  have t: "truthy (get [(u ''name'', PStr (u ''A. Smith''))] ''name'')"
    by (simp add: dict_get_def u_def)
  have g: "get [(u ''name'', PStr (u ''A. Smith''))] ''name'' = PStr (u ''A. Smith'')"
    by (simp add: dict_get_def)
  from instructor_name_rule
    [where d = "[(u ''name'', PStr (u ''A. Smith''))]" and py = example_interpreter] t
  have 1: "instructor_name example_interpreter (PDict [(u ''name'', PStr (u ''A. Smith''))])
       = Inr (PStr (u ''A. Smith''))"
    unfolding g by blast
  have f: "\<not> truthy (get [(u ''lastName'', PStr (u ''Doe''))] ''name'')"
    by (simp add: dict_get_def u_eq_iff)
  have a: "py_str example_interpreter
        (dict_get [(u ''lastName'', PStr (u ''Doe''))] (u ''firstName'') (PStr [])) = Inr []"
    by (simp add: dict_get_def u_eq_iff)
  have b: "py_str example_interpreter
        (dict_get [(u ''lastName'', PStr (u ''Doe''))] (u ''lastName'') (PStr []))
       = Inr (u ''Doe'')"
    by (simp add: dict_get_def)
  from instructor_name_rule
    [where d = "[(u ''lastName'', PStr (u ''Doe''))]" and py = example_interpreter
       and a = "[]" and b = "u ''Doe''"] f a b
  have 2: "instructor_name example_interpreter (PDict [(u ''lastName'', PStr (u ''Doe''))])
       = Inr (PStr (py_strip ([] @ u '' '' @ u ''Doe'')))"
    by blast
  have l: "640 \<le> int_max_str_digits example_interpreter"
    by (simp add: example_interpreter_def)
  have nf: "\<not> formats example_interpreter
        (dict_get [(u ''firstName'', PInt (10 ^ int_max_str_digits example_interpreter))]
           (u ''firstName'') (PStr []))"
    by (simp add: dict_get_def formats_def
        str_int_beyond_limit [OF l digits_power_beyond_limit])
  have fn: "\<not> truthy
      (get [(u ''firstName'', PInt (10 ^ int_max_str_digits example_interpreter))] ''name'')"
    by (simp add: dict_get_def u_eq_iff)
  from instructor_name_rule
    [where d = "[(u ''firstName'', PInt (10 ^ int_max_str_digits example_interpreter))]"
       and py = example_interpreter] fn nf
  have 3: "\<exists>e. instructor_name example_interpreter
          (PDict [(u ''firstName'', PInt (10 ^ int_max_str_digits example_interpreter))])
        = Inl e"
    by blast
  from instructor_name_rule [where py = example_interpreter]
  have 4: "instructors_loop example_interpreter example_instructors []
       = Inr [PStr (u ''A. Smith''), PStr (u ''B. Jones''), PStr (u ''Doe'')]"
    by blast
  from instructor_name_rule
    [where py = example_interpreter and xs = example_instructors
       and r = "[PStr (u ''A. Smith''), PStr (u ''B. Jones''), PStr (u ''Doe'')]"] 4
  have 5: "\<exists>ns. list_all2 (\<lambda>i n. instructor_name example_interpreter i = Inr n)
              example_instructors ns
         \<and> [PStr (u ''A. Smith''), PStr (u ''B. Jones''), PStr (u ''Doe'')]
             = filter (\<lambda>n. n \<noteq> PStr []) ns"
    by blast
  note 6 = transform_staffed_courses [of example_interpreter]
  from instructor_name_rule
    [where py = example_interpreter and cs = staffed_courses and doc = staffed_document] 6
  have 7: "list_all2
        (\<lambda>c oc. list_all2
           (\<lambda>s os. \<exists>r. instructors_loop example_interpreter (visited ''instructors'' s) []
                       = Inr r
                     \<and> field ''instructors'' os = PList r)
           (visited ''sections'' c) (items ''sections'' oc))
        staffed_courses (items ''courses'' staffed_document)"
    by blast
  from t 1 f a b 2 nf 3 4 5 6 7 show ?thesis by blast
qed

section \<open>The course id\<close>

text \<open>
  C5: in a document that the transform returns there is one output course for each raw
  course, in order, and the id of each output course is the text of its subject (the
  first truthy of \<^verbatim>\<open>subjectCode\<close> and \<^verbatim>\<open>subject\<close>, else \<^verbatim>\<open>""\<close>) and
  its number (the text of the first truthy of \<^verbatim>\<open>courseNumber\<close>, \<^verbatim>\<open>code\<close>
  and \<^verbatim>\<open>catalogNumber\<close>, else \<^verbatim>\<open>""\<close>) joined by one space, with the white
  space at both ends removed, so that it is empty or begins and ends with a character
  that is not white space. Subject \<^verbatim>\<open>"CS"\<close> with the number \<^verbatim>\<open>101\<close> gives
  \<^verbatim>\<open>"CS 101"\<close>, and an empty subject with an empty number gives \<^verbatim>\<open>""\<close>.
\<close>

theorem course_id_is_subject_space_number:
  "(transform_to_quacs_schema py (PList cs) = Inr doc \<longrightarrow>
      list_all2
        (\<lambda>c oc. \<exists>d a n. c = PDict d
           \<and> py_str py (first_truthy [get d ''subjectCode'', get d ''subject''] (PStr []))
               = Inr a
           \<and> py_str py
                 (first_truthy [get d ''courseNumber'', get d ''code'', get d ''catalogNumber'']
                    (PStr [])) = Inr n
           \<and> field ''subject'' oc
               = first_truthy [get d ''subjectCode'', get d ''subject''] (PStr [])
           \<and> field ''number'' oc = PStr n
           \<and> field ''id'' oc = PStr (py_strip (a @ u '' '' @ n)))
        cs (items ''courses'' doc))
   \<and> (py_strip s = [] \<or> (\<not> py_isspace (hd (py_strip s)) \<and> \<not> py_isspace (last (py_strip s))))
   \<and> transform_to_quacs_schema py
        (PList [PDict [(u ''subjectCode'', PStr (u ''CS'')), (u ''courseNumber'', PInt 101)],
                PDict [(u ''subjectCode'', PStr []), (u ''courseNumber'', PStr [])]])
       = Inr (PDict [(u ''courses'', PList
           [PDict [(u ''id'', PStr (u ''CS 101'')), (u ''subject'', PStr (u ''CS'')),
                   (u ''number'', PStr (u ''101'')), (u ''title'', PStr []),
                   (u ''credits'', PInt 0), (u ''sections'', PList [])],
            PDict [(u ''id'', PStr []), (u ''subject'', PStr []),
                   (u ''number'', PStr []), (u ''title'', PStr []),
                   (u ''credits'', PInt 0), (u ''sections'', PList [])]])])"
proof (intro conjI impI)
  assume "transform_to_quacs_schema py (PList cs) = Inr doc"
  then show "list_all2
        (\<lambda>c oc. \<exists>d a n. c = PDict d
           \<and> py_str py (first_truthy [get d ''subjectCode'', get d ''subject''] (PStr []))
               = Inr a
           \<and> py_str py
                 (first_truthy [get d ''courseNumber'', get d ''code'', get d ''catalogNumber'']
                    (PStr [])) = Inr n
           \<and> field ''subject'' oc
               = first_truthy [get d ''subjectCode'', get d ''subject''] (PStr [])
           \<and> field ''number'' oc = PStr n
           \<and> field ''id'' oc = PStr (py_strip (a @ u '' '' @ n)))
        cs (items ''courses'' doc)"
    by (rule transform_ids)
next
  show "py_strip s = [] \<or> (\<not> py_isspace (hd (py_strip s)) \<and> \<not> py_isspace (last (py_strip s)))"
    by (rule strip_trimmed)
next
  show "transform_to_quacs_schema py
        (PList [PDict [(u ''subjectCode'', PStr (u ''CS'')), (u ''courseNumber'', PInt 101)],
                PDict [(u ''subjectCode'', PStr []), (u ''courseNumber'', PStr [])]])
       = Inr (PDict [(u ''courses'', PList
           [PDict [(u ''id'', PStr (u ''CS 101'')), (u ''subject'', PStr (u ''CS'')),
                   (u ''number'', PStr (u ''101'')), (u ''title'', PStr []),
                   (u ''credits'', PInt 0), (u ''sections'', PList [])],
            PDict [(u ''id'', PStr []), (u ''subject'', PStr []),
                   (u ''number'', PStr []), (u ''title'', PStr []),
                   (u ''credits'', PInt 0), (u ''sections'', PList [])]])])"
    by (simp add: body_defs eval_defs)
qed

theorem course_id_is_subject_space_number_witness:
  "transform_to_quacs_schema example_interpreter (PList three_courses)
     = Inr three_courses_document
   \<and> list_all2
        (\<lambda>c oc. \<exists>d a n. c = PDict d
           \<and> py_str example_interpreter
                 (first_truthy [get d ''subjectCode'', get d ''subject''] (PStr [])) = Inr a
           \<and> py_str example_interpreter
                 (first_truthy [get d ''courseNumber'', get d ''code'', get d ''catalogNumber'']
                    (PStr [])) = Inr n
           \<and> field ''subject'' oc
               = first_truthy [get d ''subjectCode'', get d ''subject''] (PStr [])
           \<and> field ''number'' oc = PStr n
           \<and> field ''id'' oc = PStr (py_strip (a @ u '' '' @ n)))
        three_courses (items ''courses'' three_courses_document)"
  using course_id_is_subject_space_number
    [where py = example_interpreter and cs = three_courses and doc = three_courses_document]
    transform_three_courses [of example_interpreter]
  by blast

section \<open>Credits\<close>

text \<open>
  C7 as stated fails: credits are not coerced, so a course whose \<^verbatim>\<open>credits\<close> is
  the string \<^verbatim>\<open>"4"\<close> gets the string \<^verbatim>\<open>"4"\<close> as its credits, which is not a
  number.
\<close>

theorem string_credits_stay_a_string:
  "course_body example_interpreter (PDict [(u ''credits'', PStr (u ''4''))]) =
     Inr (PDict [(u ''id'', PStr []), (u ''subject'', PStr []), (u ''number'', PStr []),
                 (u ''title'', PStr []), (u ''credits'', PStr (u ''4'')),
                 (u ''sections'', PList [])])
   \<and> \<not> is_number (PStr (u ''4''))"
  by (simp add: course_body_def format_spaced_def eval_defs)

text \<open>
  C7, amended: in a document that the transform returns there is one output course for
  each raw course, in order, and the credits of each output course are the value of
  \<^verbatim>\<open>credits\<close> when it is truthy, else the value of \<^verbatim>\<open>minCredits\<close> when
  that is truthy, else \<^verbatim>\<open>0\<close>; the value is not coerced, so the credits are a
  number whenever each of the two fields is absent or a number. The list of the three
  example courses gives the credits 3 (from \<^verbatim>\<open>minCredits\<close>), the string
  \<^verbatim>\<open>"4"\<close> and 0.
\<close>

theorem credits_first_truthy_or_zero:
  "(transform_to_quacs_schema py (PList cs) = Inr doc \<longrightarrow>
      list_all2
        (\<lambda>c oc. \<exists>d. c = PDict d
           \<and> (truthy (get d ''credits'') \<longrightarrow> field ''credits'' oc = get d ''credits'')
           \<and> (\<not> truthy (get d ''credits'') \<and> truthy (get d ''minCredits'')
                \<longrightarrow> field ''credits'' oc = get d ''minCredits'')
           \<and> (\<not> truthy (get d ''credits'') \<and> \<not> truthy (get d ''minCredits'')
                \<longrightarrow> field ''credits'' oc = PInt 0)
           \<and> (number_or_absent d ''credits'' \<and> number_or_absent d ''minCredits''
                \<longrightarrow> is_number (field ''credits'' oc)))
        cs (items ''courses'' doc))
   \<and> transform_to_quacs_schema py (PList three_courses) = Inr three_courses_document"
proof (intro conjI impI)
  assume "transform_to_quacs_schema py (PList cs) = Inr doc"
  then show "list_all2
        (\<lambda>c oc. \<exists>d. c = PDict d
           \<and> (truthy (get d ''credits'') \<longrightarrow> field ''credits'' oc = get d ''credits'')
           \<and> (\<not> truthy (get d ''credits'') \<and> truthy (get d ''minCredits'')
                \<longrightarrow> field ''credits'' oc = get d ''minCredits'')
           \<and> (\<not> truthy (get d ''credits'') \<and> \<not> truthy (get d ''minCredits'')
                \<longrightarrow> field ''credits'' oc = PInt 0)
           \<and> (number_or_absent d ''credits'' \<and> number_or_absent d ''minCredits''
                \<longrightarrow> is_number (field ''credits'' oc)))
        cs (items ''courses'' doc)"
    by (rule transform_credits)
next
  show "transform_to_quacs_schema py (PList three_courses) = Inr three_courses_document"
    by (simp add: three_courses_def three_courses_document_def body_defs eval_defs)
qed

theorem credits_first_truthy_or_zero_witness:
  "transform_to_quacs_schema example_interpreter (PList three_courses)
     = Inr three_courses_document
   \<and> list_all2
        (\<lambda>c oc. \<exists>d. c = PDict d
           \<and> (truthy (get d ''credits'') \<longrightarrow> field ''credits'' oc = get d ''credits'')
           \<and> (\<not> truthy (get d ''credits'') \<and> truthy (get d ''minCredits'')
                \<longrightarrow> field ''credits'' oc = get d ''minCredits'')
           \<and> (\<not> truthy (get d ''credits'') \<and> \<not> truthy (get d ''minCredits'')
                \<longrightarrow> field ''credits'' oc = PInt 0)
           \<and> (number_or_absent d ''credits'' \<and> number_or_absent d ''minCredits''
                \<longrightarrow> is_number (field ''credits'' oc)))
        three_courses (items ''courses'' three_courses_document)"
  using credits_first_truthy_or_zero
    [where py = example_interpreter and cs = three_courses and doc = three_courses_document]
  by blast

section \<open>Falsy candidates\<close>

text \<open>
  C10 as stated fails for the last candidate of a chain that has no default: an empty
  \<^verbatim>\<open>campusName\<close> is present and falsy, yet the output campus is that empty
  string, while with the key absent it is null.
\<close>

theorem empty_campus_name_is_kept:
  "meeting_body (PDict [(u ''campusName'', PStr [])]) =
     Inr (PDict [(u ''days'', PStr []), (u ''start'', PNone), (u ''end'', PNone),
                 (u ''campus'', PStr []), (u ''building'', PNone),
                 (u ''room'', PStr []), (u ''modality'', PStr [])])
   \<and> meeting_body (PDict []) =
     Inr (PDict [(u ''days'', PStr []), (u ''start'', PNone), (u ''end'', PNone),
                 (u ''campus'', PNone), (u ''building'', PNone),
                 (u ''room'', PStr []), (u ''modality'', PStr [])])
   \<and> present_falsy [(u ''campusName'', PStr [])] ''campusName''
   \<and> dict_del ''campusName'' [(u ''campusName'', PStr [])] = []"
  by (simp add: meeting_body_def present_falsy_def dict_del_def dict_get_def py_or_def u_eq_iff
        Let_def)

text \<open>
  C10, amended: in every fallback chain that ends in a default (subject, number, title,
  credits, section code, days, room, modality), in the instructor's name chain, and for
  the first candidate of the campus and the building chain, a candidate that is present
  but falsy is skipped exactly as if its key were absent: the output is the output for
  the mapping without that key. The last candidate of the campus and of the building
  chain is returned as it is when the first is falsy. A course number \<^verbatim>\<open>0\<close>
  gives the number \<^verbatim>\<open>""\<close>, and an instructor with an empty name falls through to
  the first and the last name.
\<close>

theorem falsy_candidate_is_skipped:
  "(k \<in> set [''subjectCode'', ''subject'', ''courseNumber'', ''code'', ''catalogNumber'',
               ''name'', ''title'', ''credits'', ''minCredits''] \<and> present_falsy d k
      \<longrightarrow> course_body py (PDict d) = course_body py (PDict (dict_del k d)))
   \<and> (k \<in> set [''sectionCode'', ''code'', ''registrationNumber''] \<and> present_falsy d k
      \<longrightarrow> section_body py (PDict d) = section_body py (PDict (dict_del k d)))
   \<and> (present_falsy d ''name''
      \<longrightarrow> instructor_body py (PDict d) instrs
            = instructor_body py (PDict (dict_del ''name'' d)) instrs)
   \<and> (k \<in> set [''days'', ''pattern'', ''campus'', ''building'', ''room'',
                 ''instructionMode'', ''mode''] \<and> present_falsy d k
      \<longrightarrow> meeting_body (PDict d) = meeting_body (PDict (dict_del k d)))
   \<and> (meeting_body (PDict d) = Inr om \<and> \<not> truthy (get d ''campus'')
      \<longrightarrow> field ''campus'' om = get d ''campusName'')
   \<and> (meeting_body (PDict d) = Inr om \<and> \<not> truthy (get d ''building'')
      \<longrightarrow> field ''building'' om = get d ''buildingName'')
   \<and> course_body py (PDict [(u ''courseNumber'', PInt 0)])
       = Inr (PDict [(u ''id'', PStr []), (u ''subject'', PStr []), (u ''number'', PStr []),
                     (u ''title'', PStr []), (u ''credits'', PInt 0),
                     (u ''sections'', PList [])])
   \<and> instructor_body py
        (PDict [(u ''name'', PStr []), (u ''firstName'', PStr (u ''A.'')),
                (u ''lastName'', PStr (u ''Smith''))]) []
       = Inr [PStr (u ''A. Smith'')]"
proof (intro conjI impI)
  assume a: "k \<in> set [''subjectCode'', ''subject'', ''courseNumber'', ''code'', ''catalogNumber'',
               ''name'', ''title'', ''credits'', ''minCredits''] \<and> present_falsy d k"
  then have "k \<noteq> ''sections''" by auto
  with a show "course_body py (PDict d) = course_body py (PDict (dict_del k d))"
    by (simp add: course_skips_falsy)
next
  assume a: "k \<in> set [''sectionCode'', ''code'', ''registrationNumber''] \<and> present_falsy d k"
  then have "k \<noteq> ''instructors''" and "k \<noteq> ''meetings''" by auto
  with a show "section_body py (PDict d) = section_body py (PDict (dict_del k d))"
    by (simp add: section_skips_falsy)
next
  assume "present_falsy d ''name''"
  then show "instructor_body py (PDict d) instrs
            = instructor_body py (PDict (dict_del ''name'' d)) instrs"
    by (rule instructor_skips_falsy)
next
  assume a: "k \<in> set [''days'', ''pattern'', ''campus'', ''building'', ''room'',
                 ''instructionMode'', ''mode''] \<and> present_falsy d k"
  then have "k \<noteq> ''startTime''" and "k \<noteq> ''endTime''"
    and "k \<noteq> ''campusName''" and "k \<noteq> ''buildingName''" by auto
  with a show "meeting_body (PDict d) = meeting_body (PDict (dict_del k d))"
    by (simp add: meeting_skips_falsy)
next
  assume a: "meeting_body (PDict d) = Inr om \<and> \<not> truthy (get d ''campus'')"
  then have "field ''campus'' om = py_or (get d ''campus'') (get d ''campusName'')"
    by (simp add: meeting_body_fields)
  with a show "field ''campus'' om = get d ''campusName''" by (simp add: py_or_falsy)
next
  assume a: "meeting_body (PDict d) = Inr om \<and> \<not> truthy (get d ''building'')"
  then have "field ''building'' om = py_or (get d ''building'') (get d ''buildingName'')"
    by (simp add: meeting_body_fields)
  with a show "field ''building'' om = get d ''buildingName''" by (simp add: py_or_falsy)
next
  show "course_body py (PDict [(u ''courseNumber'', PInt 0)])
       = Inr (PDict [(u ''id'', PStr []), (u ''subject'', PStr []), (u ''number'', PStr []),
                     (u ''title'', PStr []), (u ''credits'', PInt 0),
                     (u ''sections'', PList [])])"
    by (simp add: course_body_def format_spaced_def eval_defs)
next
  show "instructor_body py
        (PDict [(u ''name'', PStr []), (u ''firstName'', PStr (u ''A.'')),
                (u ''lastName'', PStr (u ''Smith''))]) []
       = Inr [PStr (u ''A. Smith'')]"
    by (simp add: instructor_body_def instructor_name_def format_spaced_def eval_defs)
qed

theorem falsy_candidate_is_skipped_witness:
  "''courseNumber'' \<in> set [''subjectCode'', ''subject'', ''courseNumber'', ''code'',
        ''catalogNumber'', ''name'', ''title'', ''credits'', ''minCredits'']
   \<and> present_falsy [(u ''courseNumber'', PInt 0), (u ''code'', PStr (u ''6003''))] ''courseNumber''
   \<and> course_body example_interpreter
        (PDict [(u ''courseNumber'', PInt 0), (u ''code'', PStr (u ''6003''))])
       = course_body example_interpreter
           (PDict (dict_del ''courseNumber''
              [(u ''courseNumber'', PInt 0), (u ''code'', PStr (u ''6003''))]))
   \<and> ''campus'' \<in> set [''days'', ''pattern'', ''campus'', ''building'', ''room'',
        ''instructionMode'', ''mode'']
   \<and> present_falsy [(u ''campus'', PStr []), (u ''campusName'', PStr (u ''Brooklyn''))] ''campus''
   \<and> meeting_body (PDict [(u ''campus'', PStr []), (u ''campusName'', PStr (u ''Brooklyn''))])
       = meeting_body
           (PDict (dict_del ''campus''
              [(u ''campus'', PStr []), (u ''campusName'', PStr (u ''Brooklyn''))]))
   \<and> present_falsy [(u ''name'', PStr []), (u ''lastName'', PStr (u ''Doe''))] ''name''
   \<and> instructor_body example_interpreter
        (PDict [(u ''name'', PStr []), (u ''lastName'', PStr (u ''Doe''))]) []
       = instructor_body example_interpreter
           (PDict (dict_del ''name'' [(u ''name'', PStr []), (u ''lastName'', PStr (u ''Doe''))]))
           []"
proof -
  have m1: "''courseNumber'' \<in> set [''subjectCode'', ''subject'', ''courseNumber'', ''code'',
        ''catalogNumber'', ''name'', ''title'', ''credits'', ''minCredits'']" by simp
  have p1: "present_falsy [(u ''courseNumber'', PInt 0), (u ''code'', PStr (u ''6003''))]
      ''courseNumber''"
    by (simp add: present_falsy_def)
  have m2: "''campus'' \<in> set [''days'', ''pattern'', ''campus'', ''building'', ''room'',
        ''instructionMode'', ''mode'']" by simp
  have p2: "present_falsy [(u ''campus'', PStr []), (u ''campusName'', PStr (u ''Brooklyn''))]
      ''campus''"
    by (simp add: present_falsy_def)
  have p3: "present_falsy [(u ''name'', PStr []), (u ''lastName'', PStr (u ''Doe''))] ''name''"
    by (simp add: present_falsy_def)
  note a = falsy_candidate_is_skipped
    [of "''courseNumber''" "[(u ''courseNumber'', PInt 0), (u ''code'', PStr (u ''6003''))]"
        example_interpreter]
  note b = falsy_candidate_is_skipped
    [of "''campus''" "[(u ''campus'', PStr []), (u ''campusName'', PStr (u ''Brooklyn''))]"]
  note c = falsy_candidate_is_skipped
    [of _ "[(u ''name'', PStr []), (u ''lastName'', PStr (u ''Doe''))]" example_interpreter "[]"]
  from a m1 p1 have 1: "course_body example_interpreter
        (PDict [(u ''courseNumber'', PInt 0), (u ''code'', PStr (u ''6003''))])
       = course_body example_interpreter
           (PDict (dict_del ''courseNumber''
              [(u ''courseNumber'', PInt 0), (u ''code'', PStr (u ''6003''))]))"
    by blast
  from b m2 p2 have 2: "meeting_body
        (PDict [(u ''campus'', PStr []), (u ''campusName'', PStr (u ''Brooklyn''))])
       = meeting_body
           (PDict (dict_del ''campus''
              [(u ''campus'', PStr []), (u ''campusName'', PStr (u ''Brooklyn''))]))"
    by blast
  from c p3 have 3: "instructor_body example_interpreter
        (PDict [(u ''name'', PStr []), (u ''lastName'', PStr (u ''Doe''))]) []
       = instructor_body example_interpreter
           (PDict (dict_del ''name'' [(u ''name'', PStr []), (u ''lastName'', PStr (u ''Doe''))]))
           []"
    by blast
  from m1 p1 1 m2 p2 2 p3 3 show ?thesis by blast
qed

section \<open>The end-to-end scenario\<close>

text \<open>
  C6: for the one-course input of the scenario, the transformed document has exactly
  one course with id \<^verbatim>\<open>"CS 101"\<close>, exactly one section \<^verbatim>\<open>"A"\<close>, exactly one
  instructor \<^verbatim>\<open>"J. Doe"\<close> and exactly one meeting with days \<^verbatim>\<open>"MWF"\<close>, start
  \<^verbatim>\<open>"09:00"\<close>, end \<^verbatim>\<open>"10:15"\<close> and modality \<^verbatim>\<open>""\<close>, whatever the
  interpreter.
\<close>

theorem example_end_to_end:
  "transform_to_quacs_schema py example_courses = Inr example_document"
  by (rule transform_example_courses)

section \<open>The run\<close>

text \<open>
  C8: when the fetch of the courses fails (no answer within the timeout, no connection,
  an error status, a body that is not JSON), \<^verbatim>\<open>main\<close> ends with that exception
  and the run ends with an exception, and the output file is what it was before the
  run: nothing is written.
\<close>

theorem courses_failure_aborts_before_write:
  "(failed (net w (BASE @ u ''/v3/courses'')
       (Some [(u ''year'', PInt YEAR), (u ''term'', PStr TERM'),
              (u ''school'', PStr MVP_SCHOOL), (u ''subject'', PStr MVP_SUBJECT)]))
      \<longrightarrow> (\<exists>e. fetch_courses (net w) YEAR TERM' MVP_SCHOOL MVP_SUBJECT = Inl e))
   \<and> (fetch_courses (net w) YEAR TERM' MVP_SCHOOL MVP_SUBJECT = Inl e
      \<longrightarrow> fst (main w s) = Some e \<and> out_file (snd (main w s)) = out_file s
          \<and> fst (script w s) \<noteq> None \<and> out_file (snd (script w s)) = out_file s)"
proof (intro conjI impI)
  assume "failed (net w (BASE @ u ''/v3/courses'')
       (Some [(u ''year'', PInt YEAR), (u ''term'', PStr TERM'),
              (u ''school'', PStr MVP_SCHOOL), (u ''subject'', PStr MVP_SUBJECT)]))"
  then show "\<exists>e. fetch_courses (net w) YEAR TERM' MVP_SCHOOL MVP_SUBJECT = Inl e"
    by (simp add: fetch_courses_request get_json_failed)
next
  assume f: "fetch_courses (net w) YEAR TERM' MVP_SCHOOL MVP_SUBJECT = Inl e"
  from main_courses_failure(1) [OF f, of s]
  show "fst (main w s) = Some e" .
  from main_courses_failure(2) [OF f, of s]
  show "out_file (snd (main w s)) = out_file s" .
  from script_courses_failure [OF f, of s]
  show "fst (script w s) \<noteq> None" by simp
  from script_courses_failure [OF f, of s]
  show "out_file (snd (script w s)) = out_file s" by simp
qed

theorem courses_failure_aborts_before_write_witness:
  "failed (net (example_world (Reply 200 (Some (PList []))) (Reply 503 None))
       (BASE @ u ''/v3/courses'')
       (Some [(u ''year'', PInt YEAR), (u ''term'', PStr TERM'),
              (u ''school'', PStr MVP_SCHOOL), (u ''subject'', PStr MVP_SUBJECT)]))
   \<and> fetch_courses (net (example_world (Reply 200 (Some (PList []))) (Reply 503 None)))
        YEAR TERM' MVP_SCHOOL MVP_SUBJECT = Inl (HTTPError 503)
   \<and> fst (main (example_world (Reply 200 (Some (PList []))) (Reply 503 None)) example_state)
       = Some (HTTPError 503)
   \<and> out_file (snd (main (example_world (Reply 200 (Some (PList []))) (Reply 503 None))
        example_state)) = Some (u ''old'')
   \<and> out_file (snd (script (example_world (Reply 200 (Some (PList []))) (Reply 503 None))
        example_state)) = Some (u ''old'')"
proof -
  have f: "failed (net (example_world (Reply 200 (Some (PList []))) (Reply 503 None))
       (BASE @ u ''/v3/courses'')
       (Some [(u ''year'', PInt YEAR), (u ''term'', PStr TERM'),
              (u ''school'', PStr MVP_SCHOOL), (u ''subject'', PStr MVP_SUBJECT)]))"
    by (simp add: example_world_def courses_url_not_terms)
  have old: "out_file example_state = Some (u ''old'')"
    by (simp add: example_state_def)
  note c = example_world_courses_fail [of "Reply 200 (Some (PList []))"]
  from f c old
    courses_failure_aborts_before_write
      [of "example_world (Reply 200 (Some (PList []))) (Reply 503 None)" "HTTPError 503"
          example_state]
  show ?thesis by simp
qed

text \<open>
  C9: a failure of the terms fetch is caught and logged as a warning, and the run goes
  on to the courses fetch; when that and the transform succeed and the file system does
  not fail, the document is written and \<^verbatim>\<open>main\<close> returns. What the terms endpoint
  answers changes neither the exception \<^verbatim>\<open>main\<close> ends with nor the file it
  leaves. A failure of the courses fetch is the exception \<^verbatim>\<open>main\<close> ends with.
\<close>

theorem terms_failure_is_not_fatal:
  "(get_json (net w) TERMS_ENDPOINT None = Inl e
      \<longrightarrow> (\<exists>rest. stdout (snd (main w s))
              = stdout s @ [FetchingTerms, TermsWarning e, FetchingCourses] @ rest))
   \<and> (get_json (net w) TERMS_ENDPOINT None = Inl e
       \<and> fetch_courses (net w) YEAR TERM' MVP_SCHOOL MVP_SUBJECT = Inr raw
       \<and> py_len raw = Inr n
       \<and> transform_to_quacs_schema (interp w) raw = Inr out
       \<and> \<not> mkdir_fails w \<and> \<not> open_fails w \<and> write_fails_after w = None
      \<longrightarrow> main w s =
            (None, s\<lparr>out_dir := True, out_file := Some (dumps w out),
                     stdout := stdout s @ [FetchingTerms, TermsWarning e, FetchingCourses,
                                           Transforming n, Wrote]\<rparr>))
   \<and> fst (main (w\<lparr>net := (net w)(TERMS_ENDPOINT := t)\<rparr>) s) = fst (main w s)
   \<and> out_file (snd (main (w\<lparr>net := (net w)(TERMS_ENDPOINT := t)\<rparr>) s))
       = out_file (snd (main w s))
   \<and> (fetch_courses (net w) YEAR TERM' MVP_SCHOOL MVP_SUBJECT = Inl e'
      \<longrightarrow> fst (main w s) = Some e')"
proof (intro conjI impI)
  assume "get_json (net w) TERMS_ENDPOINT None = Inl e"
  then show "\<exists>rest. stdout (snd (main w s))
              = stdout s @ [FetchingTerms, TermsWarning e, FetchingCourses] @ rest"
    by (rule main_terms_failure_log)
next
  assume "get_json (net w) TERMS_ENDPOINT None = Inl e
       \<and> fetch_courses (net w) YEAR TERM' MVP_SCHOOL MVP_SUBJECT = Inr raw
       \<and> py_len raw = Inr n
       \<and> transform_to_quacs_schema (interp w) raw = Inr out
       \<and> \<not> mkdir_fails w \<and> \<not> open_fails w \<and> write_fails_after w = None"
  then show "main w s =
            (None, s\<lparr>out_dir := True, out_file := Some (dumps w out),
                     stdout := stdout s @ [FetchingTerms, TermsWarning e, FetchingCourses,
                                           Transforming n, Wrote]\<rparr>)"
    by (simp add: main_terms_failure_success)
next
  show "fst (main (w\<lparr>net := (net w)(TERMS_ENDPOINT := t)\<rparr>) s) = fst (main w s)"
    using main_ignores_terms [of w t s] by simp
next
  show "out_file (snd (main (w\<lparr>net := (net w)(TERMS_ENDPOINT := t)\<rparr>) s))
       = out_file (snd (main w s))"
    using main_ignores_terms [of w t s] by simp
next
  assume "fetch_courses (net w) YEAR TERM' MVP_SCHOOL MVP_SUBJECT = Inl e'"
  from main_courses_failure(1) [OF this, of s] show "fst (main w s) = Some e'" .
qed

theorem terms_failure_is_not_fatal_witness:
  "get_json (net (example_world NoAnswer (Reply 200 (Some example_courses))))
      TERMS_ENDPOINT None = Inl Timeout
   \<and> main (example_world NoAnswer (Reply 200 (Some example_courses))) example_state
       = (None, \<lparr>out_dir = True, out_file = Some (u ''{...}''),
                 stdout = [FetchingTerms, TermsWarning Timeout, FetchingCourses,
                           Transforming 1, Wrote]\<rparr>)
   \<and> fetch_courses (net (example_world NoAnswer (Reply 503 None)))
        YEAR TERM' MVP_SCHOOL MVP_SUBJECT = Inl (HTTPError 503)
   \<and> fst (main (example_world NoAnswer (Reply 503 None)) example_state)
       = Some (HTTPError 503)"
proof -
  note t = example_world_terms [of "Reply 200 (Some example_courses)"]
  note c = example_world_courses_ok [of NoAnswer example_courses]
  have l: "py_len example_courses = Inr 1"
    by (simp add: example_courses_def)
  have tr: "transform_to_quacs_schema
      (interp (example_world NoAnswer (Reply 200 (Some example_courses)))) example_courses
      = Inr example_document"
    by (rule transform_example_courses)
  have fs: "\<not> mkdir_fails (example_world NoAnswer (Reply 200 (Some example_courses)))"
    "\<not> open_fails (example_world NoAnswer (Reply 200 (Some example_courses)))"
    "write_fails_after (example_world NoAnswer (Reply 200 (Some example_courses))) = None"
    "dumps (example_world NoAnswer (Reply 200 (Some example_courses))) example_document
       = u ''{...}''"
    by (simp_all add: example_world_def)
  note f = example_world_courses_fail [of NoAnswer]
  from t c l tr fs
    terms_failure_is_not_fatal
      [of "example_world NoAnswer (Reply 200 (Some example_courses))" Timeout example_state
          example_courses 1 example_document]
  have 1: "main (example_world NoAnswer (Reply 200 (Some example_courses))) example_state
       = (None, \<lparr>out_dir = True, out_file = Some (u ''{...}''),
                 stdout = [FetchingTerms, TermsWarning Timeout, FetchingCourses,
                           Transforming 1, Wrote]\<rparr>)"
    by (simp add: example_state_def)
  from f terms_failure_is_not_fatal
      [of "example_world NoAnswer (Reply 503 None)" _ example_state _ _ _ _ "HTTPError 503"]
  have 2: "fst (main (example_world NoAnswer (Reply 503 None)) example_state)
       = Some (HTTPError 503)"
    by blast
  from t 1 f 2 show ?thesis by blast
qed

end
